theory Spec2Isabelle
  imports Complex_Main
begin

section \<open>Jacketed-reactor thermal simulation (OBX heat up and down simulation V2)\<close>

text \<open>
  The script is embedded function by function. Python floats are read as real numbers
  (exact arithmetic, no rounding, no NaN or infinities); Python ints that the script uses
  as ints (the timestep, the end time, the loop variable) are \<open>int\<close>. Module-level
  globals that the functions read are gathered in the record \<open>config\<close> and passed
  explicitly; the value the script gives them is \<open>design\<close> below. Exceptions are
  values of \<open>error\<close>.

  Reading doubles as reals keeps every comparison, branch and sign of the script on
  inputs where no rounding decides them, and makes equalities exact that the script
  meets up to rounding. Properties whose truth depends on rounding (a strict change of a
  temperature by a very small amount, an outlet that stops exactly at a bound) are not
  stated here: the model cannot decide them.
\<close>

subsection \<open>Errors and Python built-ins\<close>

datatype error = KeyError | ZeroDivisionError | ValueError | TypeError

text \<open>Python's two-argument \<open>max\<close> and \<open>min\<close> keep the first argument unless the second
  is strictly larger (smaller).\<close>

definition py_max :: "real \<Rightarrow> real \<Rightarrow> real" where
  "py_max a b = (if b > a then b else a)"

definition py_min :: "real \<Rightarrow> real \<Rightarrow> real" where
  "py_min a b = (if b < a then b else a)"

text \<open>\<open>range(start, stop, step)\<close>: a zero step raises ValueError; otherwise the length is
  computed as CPython does.\<close>

definition py_range :: "int \<Rightarrow> int \<Rightarrow> int \<Rightarrow> error + int list" where
  "py_range start stop step =
     (if step = 0 then Inl ValueError
      else if step > 0 then
        Inr (map (\<lambda>i. start + int i * step) [0 ..< nat ((stop - start + step - 1) div step)])
      else
        Inr (map (\<lambda>i. start + int i * step) [0 ..< nat ((start - stop - step - 1) div (- step))]))"

subsection \<open>Globals\<close>

record config =
  approach_temp :: real
  dt :: int
  end_time :: int
  K_p :: real
  cp_oil :: real
  m_dot_oil :: real
  U_values :: "string \<rightharpoonup> real"
  heat_exchange_areas :: "string \<rightharpoonup> real"
  thermal_mass :: "string \<rightharpoonup> real"
  heater_max_duty :: real
  cooler_max_duty :: real
  cooling_water_temp :: real
  oil_max_temp :: real
  reactor_max_temp :: real
  ambient_temp :: real
  reaction_time :: real

subsection \<open>Heat transfer functions\<close>

text \<open>Lines 185--196 of the script: the limiting duty and its reason.\<close>

definition limiting_Q :: "real \<Rightarrow> real \<Rightarrow> real \<Rightarrow> real option \<Rightarrow> real \<times> string" where
  "limiting_Q Q_area Q_flow_hot Q_flow_cold max_duty =
     (let (Q, reason) = (Q_area, ''area'');
          (Q, reason) = (if Q_flow_hot < Q then (Q_flow_hot, ''hot flow'') else (Q, reason));
          (Q, reason) = (if Q_flow_cold < Q then (Q_flow_cold, ''cold flow'') else (Q, reason));
          (Q, reason) = (case max_duty of
                           None \<Rightarrow> (Q, reason)
                         | Some m \<Rightarrow> if Q > m then (m, ''device'') else (Q, reason))
      in (Q, reason))"

definition calculate_heat_transfer ::
  "config \<Rightarrow> real \<Rightarrow> real \<Rightarrow> real \<Rightarrow> real \<Rightarrow> real option \<Rightarrow> string
     \<Rightarrow> error + (real \<times> real \<times> real \<times> string)" where
  "calculate_heat_transfer cfg T_hot_in T_cold_in thermal_mass_hot thermal_mass_cold
       max_duty Exchanger_name =
     (case U_values cfg Exchanger_name of
        None \<Rightarrow> Inl KeyError
      | Some U \<Rightarrow>
     (case heat_exchange_areas cfg Exchanger_name of
        None \<Rightarrow> Inl KeyError
      | Some A \<Rightarrow>
        let delta_T = py_max (T_hot_in - T_cold_in - approach_temp cfg) 0 in
        if delta_T \<le> 0 then Inr (0, T_hot_in, T_cold_in, ''no transfer'')
        else
          let Q_area = U * A * delta_T in
          if dt cfg = 0 then Inl ZeroDivisionError
          else
            let Q_flow_hot = thermal_mass_hot * delta_T / real_of_int (dt cfg);
                Q_flow_cold = thermal_mass_cold * delta_T / real_of_int (dt cfg);
                (Q, reason) = limiting_Q Q_area Q_flow_hot Q_flow_cold max_duty
            in
              if thermal_mass_hot = 0 then Inl ZeroDivisionError
              else
                let T_hot_out = T_hot_in - (Q * real_of_int (dt cfg) / thermal_mass_hot) in
                if thermal_mass_cold = 0 then Inl ZeroDivisionError
                else
                  let T_cold_out = T_cold_in + (Q * real_of_int (dt cfg) / thermal_mass_cold)
                  in Inr (Q, T_hot_out, T_cold_out, reason)))"

definition calculate_insulation_loss :: "config \<Rightarrow> string \<Rightarrow> real \<Rightarrow> error + (real \<times> real)" where
  "calculate_insulation_loss cfg component_name T_current =
     (let key_outside = component_name @ ''_outside'' in
      case U_values cfg key_outside of
        None \<Rightarrow> Inl KeyError
      | Some U \<Rightarrow>
     (case heat_exchange_areas cfg key_outside of
        None \<Rightarrow> Inl KeyError
      | Some A \<Rightarrow>
        let Q_loss = U * A * (T_current - ambient_temp cfg) in
        if component_name = ''pipe'' then
          let m_dot = m_dot_oil cfg; cp_oil = cp_oil cfg in
          if m_dot * cp_oil = 0 then Inl ZeroDivisionError
          else Inr (Q_loss, T_current - Q_loss / (m_dot * cp_oil))
        else
          (case thermal_mass cfg component_name of
             None \<Rightarrow> Inl KeyError
           | Some Tmass \<Rightarrow>
               if Tmass = 0 then Inl ZeroDivisionError
               else Inr (Q_loss, T_current - (Q_loss * real_of_int (dt cfg) / Tmass)))))"

subsection \<open>The script's constants\<close>

text \<open>\<open>math.pi\<close> is the double nearest to \<open>\<pi>\<close>, written as Python prints it.\<close>

definition math_pi :: real where "math_pi = 3.141592653589793"

definition cp_water :: real where "cp_water = 4186"
definition cp_minerals :: real where "cp_minerals = 900"
definition cp_steel :: real where "cp_steel = 500"
definition rho_oil :: real where "rho_oil = 800"
definition rho_steel :: real where "rho_steel = 8000"
definition rho_water :: real where "rho_water = 1000"
definition oil_flow_m3_per_h :: real where "oil_flow_m3_per_h = 10"
definition water_flow_m3_per_h :: real where "water_flow_m3_per_h = 30"
definition Mineral_weight :: real where "Mineral_weight = 350"
definition Water_weight :: real where "Water_weight = 150"

definition diameter :: real where "diameter = 1.5"
definition radius :: real where "radius = diameter / 2"
definition height :: real where "height = 2.0"
definition thickness :: real where "thickness = 0.03"

definition pipe_length :: real where "pipe_length = 10"
definition pipe_diameter :: real where "pipe_diameter = 0.0254"
definition pipe_area :: real where "pipe_area = math_pi * pipe_diameter * pipe_length"
definition pipe_volume :: real where
  "pipe_volume = math_pi * (pipe_diameter / 2)\<^sup>2 * pipe_length"

definition m_dot_water :: real where "m_dot_water = rho_water * water_flow_m3_per_h / 3600"

definition shell_volume :: real where
  "shell_volume = math_pi * (radius\<^sup>2 - (radius - thickness)\<^sup>2) * height"
definition end_volume :: real where "end_volume = 2 * math_pi * radius\<^sup>2 * thickness"

definition mass_jacket :: real where "mass_jacket = shell_volume * rho_steel"
definition mass_reactor :: real where "mass_reactor = end_volume * rho_steel"
definition mass_oil :: real where "mass_oil = pipe_volume / 1000 * rho_oil"

text \<open>The globals as the script leaves them before the loop starts. The dictionary
  comprehension over \<open>masses\<close> yields the keys jacket, reactor, pipe, flow and cooling;
  the reactor entry is then increased by the reactor contents.\<close>

definition design :: config where
  "design =
     (let dt = 60;
          m_dot_oil = rho_oil * oil_flow_m3_per_h / 3600;
          cp_oil = 2200;
          reactor_contents = Mineral_weight * cp_minerals + Water_weight * cp_water
      in
      \<lparr> approach_temp = 0.5,
        dt = dt,
        end_time = 6 * 3600,
        K_p = 92.0,
        cp_oil = cp_oil,
        m_dot_oil = m_dot_oil,
        U_values =
          [''heater_oil'' \<mapsto> 200,
           ''oil_jacket'' \<mapsto> 150,
           ''jacket_reactor'' \<mapsto> 100,
           ''cooler_oil'' \<mapsto> 400,
           ''pipe_outside'' \<mapsto> 2,
           ''jacket_outside'' \<mapsto> 2,
           ''reactor_outside'' \<mapsto> 3],
        heat_exchange_areas =
          [''heater_oil'' \<mapsto> 5.0,
           ''oil_jacket'' \<mapsto> math_pi * diameter * height,
           ''jacket_reactor'' \<mapsto> math_pi * diameter * height,
           ''cooler_oil'' \<mapsto> 3.0,
           ''pipe_outside'' \<mapsto> pipe_area,
           ''jacket_outside'' \<mapsto> math_pi * diameter * height,
           ''reactor_outside'' \<mapsto> 2 * math_pi * radius\<^sup>2],
        thermal_mass =
          [''jacket'' \<mapsto> mass_jacket * cp_steel,
           ''reactor'' \<mapsto> mass_reactor * cp_steel + reactor_contents,
           ''pipe'' \<mapsto> mass_oil * cp_oil,
           ''flow'' \<mapsto> m_dot_oil * real_of_int dt * cp_oil,
           ''cooling'' \<mapsto> m_dot_water * real_of_int dt * cp_water,
           ''reactor_contents'' \<mapsto> reactor_contents],
        heater_max_duty = 96000,
        cooler_max_duty = 60000,
        cooling_water_temp = 10,
        oil_max_temp = 200,
        reactor_max_temp = 175,
        ambient_temp = 25,
        reaction_time = 1 * 3600 \<rparr>)"

subsection \<open>Simulation state and results\<close>

record results =
  r_time :: "int list"
  r_T_oil_out_heater :: "real list"
  r_T_oil_after_pipe_to_jacket :: "real list"
  r_T_oil_after_jacket :: "real list"
  r_T_oil_after_pipe_to_heater :: "real list"
  r_T_jacket :: "real list"
  r_T_reactor :: "real list"
  r_Q_heater :: "real list"
  r_Q_cooler :: "real list"
  r_Q_oil_jacket :: "real list"
  r_Q_jacket_reactor :: "real list"
  r_Q_pipe_to_jacket :: "real list"
  r_Q_pipe_to_heater :: "real list"
  r_Q_jacket_loss :: "real list"
  r_Q_reactor_loss :: "real list"
  r_limit_heater :: "string list"
  r_limit_cooler :: "string list"
  r_limit_oil_jacket :: "string list"
  r_limit_jacket_reactor :: "string list"
  r_Q_total_loss :: "real list"

record sim_state =
  st_T_oil :: real
  st_T_jacket :: real
  st_T_reactor :: real
  st_status :: string
  st_reaction_start_time :: "int option"
  st_results :: results

definition empty_results :: results where
  "empty_results =
     \<lparr> r_time = [], r_T_oil_out_heater = [], r_T_oil_after_pipe_to_jacket = [],
       r_T_oil_after_jacket = [], r_T_oil_after_pipe_to_heater = [],
       r_T_jacket = [], r_T_reactor = [],
       r_Q_heater = [], r_Q_cooler = [], r_Q_oil_jacket = [], r_Q_jacket_reactor = [],
       r_Q_pipe_to_jacket = [], r_Q_pipe_to_heater = [], r_Q_jacket_loss = [],
       r_Q_reactor_loss = [],
       r_limit_heater = [], r_limit_cooler = [], r_limit_oil_jacket = [],
       r_limit_jacket_reactor = [],
       r_Q_total_loss = [] \<rparr>"

definition initial_state :: "config \<Rightarrow> sim_state" where
  "initial_state cfg =
     \<lparr> st_T_oil = ambient_temp cfg, st_T_jacket = ambient_temp cfg,
       st_T_reactor = ambient_temp cfg,
       st_status = ''heating'', st_reaction_start_time = None, st_results = empty_results \<rparr>"

subsection \<open>The loop body\<close>

text \<open>Step 1 of the loop body (lines 229--234): the status update. Subtracting
  \<open>None\<close> from the time raises TypeError.\<close>

definition update_status ::
  "config \<Rightarrow> int \<Rightarrow> real \<Rightarrow> string \<times> int option \<Rightarrow> error + (string \<times> int option)" where
  "update_status cfg t T_reactor s =
     (let (status, reaction_start_time) = s;
          (status, reaction_start_time) =
             (if status = ''heating'' \<and> T_reactor \<ge> reactor_max_temp cfg
              then (''reaction'', Some t) else (status, reaction_start_time))
      in if status = ''reaction'' then
           (case reaction_start_time of
              None \<Rightarrow> Inl TypeError
            | Some t0 \<Rightarrow>
                if real_of_int (t - t0) \<ge> reaction_time cfg
                then Inr (''cooling'', reaction_start_time)
                else Inr (status, reaction_start_time))
         else Inr (status, reaction_start_time))"

text \<open>Lines 238--239: the heater exit temperature target.\<close>

definition T_heater_exit :: "config \<Rightarrow> real \<Rightarrow> real \<Rightarrow> real" where
  "T_heater_exit cfg T_oil T_reactor =
     (let T_error = reactor_max_temp cfg + 5 - T_reactor
      in py_min (oil_max_temp cfg) (T_oil + K_p cfg * T_error))"

text \<open>Step 2 of the loop body (lines 237--261). The result is
  \<open>(Q_heater, Q_cooler, T_oil, limit_heater, limit_cooler)\<close>.\<close>

definition heater_cooler ::
  "config \<Rightarrow> string \<Rightarrow> real \<Rightarrow> real \<Rightarrow> error + (real \<times> real \<times> real \<times> string \<times> string)" where
  "heater_cooler cfg status T_oil T_reactor =
     (if status \<in> set [''heating'', ''reaction''] then
        (case thermal_mass cfg ''flow'' of
           None \<Rightarrow> Inl KeyError
         | Some flow \<Rightarrow>
            (case calculate_heat_transfer cfg (T_heater_exit cfg T_oil T_reactor) T_oil
                    flow flow (Some (heater_max_duty cfg)) ''heater_oil'' of
               Inl e \<Rightarrow> Inl e
             | Inr (Q_heater, _, T_oil, reason) \<Rightarrow>
                 Inr (Q_heater, 0, T_oil, reason, ''no transfer'')))
      else if status = ''cooling'' then
        (case thermal_mass cfg ''flow'' of
           None \<Rightarrow> Inl KeyError
         | Some flow \<Rightarrow>
        (case thermal_mass cfg ''cooling'' of
           None \<Rightarrow> Inl KeyError
         | Some cooling \<Rightarrow>
            (case calculate_heat_transfer cfg T_oil (cooling_water_temp cfg)
                    flow cooling (Some (cooler_max_duty cfg)) ''cooler_oil'' of
               Inl e \<Rightarrow> Inl e
             | Inr (Q_cooler, _, T_oil, reason) \<Rightarrow>
                 Inr (0, Q_cooler, T_oil, ''no transfer'', reason))))
      else Inr (0, 0, T_oil, ''no transfer'', ''no transfer''))"

text \<open>Step 9 of the loop body (lines 299--318): one value is appended to every column.\<close>

definition log_results ::
  "results \<Rightarrow> int \<Rightarrow> real \<Rightarrow> real \<Rightarrow> real \<Rightarrow> real \<Rightarrow> real \<Rightarrow> real \<Rightarrow> real \<Rightarrow> real \<Rightarrow> real
     \<Rightarrow> real \<Rightarrow> real \<Rightarrow> real \<Rightarrow> real \<Rightarrow> real \<Rightarrow> string \<Rightarrow> string \<Rightarrow> string \<Rightarrow> string
     \<Rightarrow> real \<Rightarrow> results" where
  "log_results res t T_oil_out_heater T_oil_pipe_out T_oil_jacket_out T_oil_return
       T_jacket T_reactor Q_heater Q_cooler Q_oil_jacket Q_jacket_reactor
       Q_pipe_to_jacket Q_pipe_to_heater Q_jacket_loss Q_reactor_loss
       limit_heater limit_cooler limit_oil_jacket limit_jacket_reactor Q_total_loss =
     res \<lparr> r_time := r_time res @ [t],
           r_T_oil_out_heater := r_T_oil_out_heater res @ [T_oil_out_heater],
           r_T_oil_after_pipe_to_jacket := r_T_oil_after_pipe_to_jacket res @ [T_oil_pipe_out],
           r_T_oil_after_jacket := r_T_oil_after_jacket res @ [T_oil_jacket_out],
           r_T_oil_after_pipe_to_heater := r_T_oil_after_pipe_to_heater res @ [T_oil_return],
           r_T_jacket := r_T_jacket res @ [T_jacket],
           r_T_reactor := r_T_reactor res @ [T_reactor],
           r_Q_heater := r_Q_heater res @ [Q_heater],
           r_Q_cooler := r_Q_cooler res @ [Q_cooler],
           r_Q_oil_jacket := r_Q_oil_jacket res @ [Q_oil_jacket],
           r_Q_jacket_reactor := r_Q_jacket_reactor res @ [Q_jacket_reactor],
           r_Q_pipe_to_jacket := r_Q_pipe_to_jacket res @ [Q_pipe_to_jacket],
           r_Q_pipe_to_heater := r_Q_pipe_to_heater res @ [Q_pipe_to_heater],
           r_Q_jacket_loss := r_Q_jacket_loss res @ [Q_jacket_loss],
           r_Q_reactor_loss := r_Q_reactor_loss res @ [Q_reactor_loss],
           r_limit_heater := r_limit_heater res @ [limit_heater],
           r_limit_cooler := r_limit_cooler res @ [limit_cooler],
           r_limit_oil_jacket := r_limit_oil_jacket res @ [limit_oil_jacket],
           r_limit_jacket_reactor := r_limit_jacket_reactor res @ [limit_jacket_reactor],
           r_Q_total_loss := r_Q_total_loss res @ [Q_total_loss] \<rparr>"

text \<open>Steps 3--8 of the loop body (lines 263--295), from the oil temperature at the heater
  exit to the four losses. The result is the new oil, jacket and reactor temperatures and
  the values to be logged.\<close>

definition oil_circuit ::
  "config \<Rightarrow> real \<Rightarrow> real \<Rightarrow> real
     \<Rightarrow> error + (real \<times> real \<times> real) \<times> (real \<times> real) \<times>
                (real \<times> real \<times> real \<times> real \<times> real \<times> real) \<times> (string \<times> string)" where
  "oil_circuit cfg T_oil T_jacket T_reactor =
     (case calculate_insulation_loss cfg ''pipe'' T_oil of
        Inl e \<Rightarrow> Inl e
      | Inr (Q_pipe_to_jacket, T_oil) \<Rightarrow>
     let T_oil_pipe_out = T_oil in
     (case thermal_mass cfg ''flow'' of None \<Rightarrow> Inl KeyError | Some flow \<Rightarrow>
     (case thermal_mass cfg ''jacket'' of None \<Rightarrow> Inl KeyError | Some jacket \<Rightarrow>
     (case calculate_heat_transfer cfg T_oil T_jacket flow jacket None ''oil_jacket'' of
        Inl e \<Rightarrow> Inl e
      | Inr (Q_oil_jacket, T_oil, T_jacket, reason) \<Rightarrow>
     let limit_oil_jacket = reason; T_oil_jacket_out = T_oil in
     (case thermal_mass cfg ''reactor'' of None \<Rightarrow> Inl KeyError | Some reactor \<Rightarrow>
     (case calculate_heat_transfer cfg T_jacket T_reactor jacket reactor None
             ''jacket_reactor'' of
        Inl e \<Rightarrow> Inl e
      | Inr (Q_jacket_reactor, T_jacket, T_reactor, reason) \<Rightarrow>
     let limit_jacket_reactor = reason in
     (case calculate_insulation_loss cfg ''jacket'' T_jacket of
        Inl e \<Rightarrow> Inl e
      | Inr (Q_jacket_loss, T_jacket) \<Rightarrow>
     (case calculate_insulation_loss cfg ''reactor'' T_reactor of
        Inl e \<Rightarrow> Inl e
      | Inr (Q_reactor_loss, T_reactor) \<Rightarrow>
     (case calculate_insulation_loss cfg ''pipe'' T_oil of
        Inl e \<Rightarrow> Inl e
      | Inr (Q_pipe_to_heater, T_oil) \<Rightarrow>
          Inr ((T_oil, T_jacket, T_reactor),
               (T_oil_pipe_out, T_oil_jacket_out),
               (Q_oil_jacket, Q_jacket_reactor, Q_pipe_to_jacket, Q_pipe_to_heater,
                Q_jacket_loss, Q_reactor_loss),
               (limit_oil_jacket, limit_jacket_reactor)))))))))))"

text \<open>One iteration of the loop (lines 227--318).\<close>

definition loop_body :: "config \<Rightarrow> int \<Rightarrow> sim_state \<Rightarrow> error + sim_state" where
  "loop_body cfg t s =
     (case update_status cfg t (st_T_reactor s) (st_status s, st_reaction_start_time s) of
        Inl e \<Rightarrow> Inl e
      | Inr (status', reaction_start_time') \<Rightarrow>
     (case heater_cooler cfg status' (st_T_oil s) (st_T_reactor s) of
        Inl e \<Rightarrow> Inl e
      | Inr (Q_heater, Q_cooler, T_oil_out_heater, limit_heater, limit_cooler) \<Rightarrow>
     (case oil_circuit cfg T_oil_out_heater (st_T_jacket s) (st_T_reactor s) of
        Inl e \<Rightarrow> Inl e
      | Inr ((T_oil', T_jacket', T_reactor'),
             (T_oil_pipe_out, T_oil_jacket_out),
             (Q_oil_jacket, Q_jacket_reactor, Q_pipe_to_jacket, Q_pipe_to_heater,
              Q_jacket_loss, Q_reactor_loss),
             (limit_oil_jacket, limit_jacket_reactor)) \<Rightarrow>
     let Q_total_loss = Q_pipe_to_heater + Q_jacket_loss + Q_reactor_loss + Q_pipe_to_jacket
     in Inr \<lparr> st_T_oil = T_oil', st_T_jacket = T_jacket', st_T_reactor = T_reactor',
              st_status = status', st_reaction_start_time = reaction_start_time',
              st_results =
                log_results (st_results s) t T_oil_out_heater T_oil_pipe_out T_oil_jacket_out
                  T_oil' T_jacket' T_reactor' Q_heater Q_cooler Q_oil_jacket
                  Q_jacket_reactor Q_pipe_to_jacket Q_pipe_to_heater Q_jacket_loss
                  Q_reactor_loss limit_heater limit_cooler limit_oil_jacket
                  limit_jacket_reactor Q_total_loss \<rparr>)))"

text \<open>The loop over a list of times; an exception ends the run.\<close>

fun run_loop :: "config \<Rightarrow> int list \<Rightarrow> sim_state \<Rightarrow> error + sim_state" where
  "run_loop cfg [] s = Inr s"
| "run_loop cfg (t # ts) s =
     (case loop_body cfg t s of Inl e \<Rightarrow> Inl e | Inr s' \<Rightarrow> run_loop cfg ts s')"

text \<open>Section 6 of the script: \<open>for t in range(0, end_time, dt)\<close> from the initial state.\<close>

definition simulate :: "config \<Rightarrow> error + sim_state" where
  "simulate cfg =
     (case py_range 0 (end_time cfg) (dt cfg) of
        Inl e \<Rightarrow> Inl e
      | Inr ts \<Rightarrow> run_loop cfg ts (initial_state cfg))"

text \<open>The states after each completed iteration, for stating properties of the run.\<close>

fun loop_trace :: "config \<Rightarrow> int list \<Rightarrow> sim_state \<Rightarrow> sim_state list" where
  "loop_trace cfg [] s = []"
| "loop_trace cfg (t # ts) s =
     (case loop_body cfg t s of Inl e \<Rightarrow> [] | Inr s' \<Rightarrow> s' # loop_trace cfg ts s')"

subsection \<open>Auxiliary notions for stating properties of a run\<close>

text \<open>The configurations on which the loop raises no exception: a positive timestep,
  a non-zero flow capacity rate for the pipe, every exchanger and insulation path present
  in both tables, and every thermal mass the loop divides by present and non-zero.\<close>

definition valid_config :: "config \<Rightarrow> bool" where
  "valid_config cfg =
     (0 < dt cfg \<and> m_dot_oil cfg * cp_oil cfg \<noteq> 0 \<and>
      list_all (\<lambda>n. U_values cfg n \<noteq> None \<and> heat_exchange_areas cfg n \<noteq> None)
        [''heater_oil'', ''cooler_oil'', ''oil_jacket'', ''jacket_reactor'',
         ''pipe_outside'', ''jacket_outside'', ''reactor_outside''] \<and>
      list_all (\<lambda>n. case thermal_mass cfg n of None \<Rightarrow> False | Some c \<Rightarrow> c \<noteq> 0)
        [''flow'', ''cooling'', ''jacket'', ''reactor''])"

text \<open>The lengths of the twenty columns of the results table.\<close>

definition column_lengths :: "results \<Rightarrow> nat list" where
  "column_lengths res =
     [length (r_time res), length (r_T_oil_out_heater res),
      length (r_T_oil_after_pipe_to_jacket res), length (r_T_oil_after_jacket res),
      length (r_T_oil_after_pipe_to_heater res), length (r_T_jacket res),
      length (r_T_reactor res), length (r_Q_heater res), length (r_Q_cooler res),
      length (r_Q_oil_jacket res), length (r_Q_jacket_reactor res),
      length (r_Q_pipe_to_jacket res), length (r_Q_pipe_to_heater res),
      length (r_Q_jacket_loss res), length (r_Q_reactor_loss res),
      length (r_limit_heater res), length (r_limit_cooler res),
      length (r_limit_oil_jacket res), length (r_limit_jacket_reactor res),
      length (r_Q_total_loss res)]"

text \<open>The order heating < reaction < cooling of the process states.\<close>

definition status_rank :: "string \<Rightarrow> nat" where
  "status_rank st = (if st = ''heating'' then 0 else if st = ''reaction'' then 1 else 2)"

text \<open>The status is one of the three process states, and the reaction start time is
  unset exactly while heating.\<close>

definition status_ok :: "sim_state \<Rightarrow> bool" where
  "status_ok s =
     (st_status s \<in> {''heating'', ''reaction'', ''cooling''} \<and>
      (st_status s = ''heating'') = (st_reaction_start_time s = None))"

text \<open>The completed iterations of a run: the time, the state before and the state
  after.\<close>

definition loop_steps :: "config \<Rightarrow> int list \<Rightarrow> sim_state \<Rightarrow> (int \<times> sim_state \<times> sim_state) list" where
  "loop_steps cfg ts s = zip ts (zip (s # loop_trace cfg ts s) (loop_trace cfg ts s))"

text \<open>The script's configuration with a reactor max temperature below ambient and a
  one-minute hold: a run of two iterations passes through all three process states.\<close>

definition short_hold :: config where
  "short_hold = design \<lparr> reactor_max_temp := 20, reaction_time := 60 \<rparr>"

section \<open>Properties\<close>

subsection \<open>The script's configuration\<close>

lemma design_scalars:
  "approach_temp design = 1 / 2" "dt design = 60" "end_time design = 21600"
  "K_p design = 92" "cp_oil design = 2200" "m_dot_oil design = 20 / 9"
  "heater_max_duty design = 96000" "cooler_max_duty design = 60000"
  "cooling_water_temp design = 10" "oil_max_temp design = 200"
  "reactor_max_temp design = 175" "ambient_temp design = 25" "reaction_time design = 3600"
  by (simp_all add: design_def Let_def rho_oil_def oil_flow_m3_per_h_def)

lemma design_heater_oil:
  "U_values design ''heater_oil'' = Some 200"
  "heat_exchange_areas design ''heater_oil'' = Some 5"
  by (simp_all add: design_def Let_def)

lemma design_cooler_oil:
  "U_values design ''cooler_oil'' = Some 400"
  "heat_exchange_areas design ''cooler_oil'' = Some 3"
  by (simp_all add: design_def Let_def)

lemma design_flow:
  "thermal_mass design ''flow'' = Some (880000 / 3)"
  "thermal_mass design ''cooling'' = Some 2093000"
  by (simp_all add: design_def Let_def rho_oil_def oil_flow_m3_per_h_def m_dot_water_def
        rho_water_def water_flow_m3_per_h_def cp_water_def)

subsection \<open>The two-node exchange\<close>

lemma limiting_Q_fst:
  "fst (limiting_Q a h c md) =
     (case md of None \<Rightarrow> min a (min h c) | Some m \<Rightarrow> min (min a (min h c)) m)"
  by (auto simp: limiting_Q_def split: option.splits)

lemma limiting_Q_snd:
  "snd (limiting_Q a h c md) =
     (if (\<exists>m. md = Some m \<and> m < min a (min h c)) then ''device''
      else if c < min a h then ''cold flow''
      else if h < a then ''hot flow''
      else ''area'')"
  by (auto simp: limiting_Q_def split: option.splits)

lemma calculate_heat_transfer_transfer:
  assumes "U_values cfg name = Some U" "heat_exchange_areas cfg name = Some A"
    and "dt cfg \<noteq> 0" "ch \<noteq> 0" "cc \<noteq> 0"
    and "0 < hi - ci - approach_temp cfg"
  shows "calculate_heat_transfer cfg hi ci ch cc md name =
           Inr (fst (limiting_Q (U * A * (hi - ci - approach_temp cfg))
                       (ch * (hi - ci - approach_temp cfg) / real_of_int (dt cfg))
                       (cc * (hi - ci - approach_temp cfg) / real_of_int (dt cfg)) md),
                hi - fst (limiting_Q (U * A * (hi - ci - approach_temp cfg))
                       (ch * (hi - ci - approach_temp cfg) / real_of_int (dt cfg))
                       (cc * (hi - ci - approach_temp cfg) / real_of_int (dt cfg)) md)
                     * real_of_int (dt cfg) / ch,
                ci + fst (limiting_Q (U * A * (hi - ci - approach_temp cfg))
                       (ch * (hi - ci - approach_temp cfg) / real_of_int (dt cfg))
                       (cc * (hi - ci - approach_temp cfg) / real_of_int (dt cfg)) md)
                     * real_of_int (dt cfg) / cc,
                snd (limiting_Q (U * A * (hi - ci - approach_temp cfg))
                       (ch * (hi - ci - approach_temp cfg) / real_of_int (dt cfg))
                       (cc * (hi - ci - approach_temp cfg) / real_of_int (dt cfg)) md))"
  using assms
  by (simp add: calculate_heat_transfer_def py_max_def Let_def split_beta)

lemma calculate_heat_transfer_no_transfer:
  assumes "U_values cfg name = Some U" "heat_exchange_areas cfg name = Some A"
    and "hi - ci \<le> approach_temp cfg"
  shows "calculate_heat_transfer cfg hi ci ch cc md name = Inr (0, hi, ci, ''no transfer'')"
  using assms
  by (simp add: calculate_heat_transfer_def py_max_def Let_def)


text \<open>
  Claim C1. Whenever the exchange transfers heat (driving force
  \<open>max (hot_in - cold_in - approach_temp) 0 > 0\<close>), the call returns, the returned duty is
  the minimum of the area-limited, hot-flow-limited and cold-flow-limited candidates and,
  when a device cap is supplied, the cap; the returned reason follows the precedence
  area, hot flow, cold flow, device, a later candidate winning only when it is strictly
  smaller than the minimum so far. The hypotheses on the exchanger name, the timestep and
  the capacitances are exactly the conditions under which the call raises no exception.
\<close>

theorem heat_transfer_limiting_duty:
  assumes "U_values cfg name = Some U" and "heat_exchange_areas cfg name = Some A"
    and "dt cfg \<noteq> 0" and "cap_hot \<noteq> 0" and "cap_cold \<noteq> 0"
    and "dT = max (hot_in - cold_in - approach_temp cfg) 0" and "0 < dT"
    and "Q_area = U * A * dT"
    and "Q_flow_hot = cap_hot * dT / real_of_int (dt cfg)"
    and "Q_flow_cold = cap_cold * dT / real_of_int (dt cfg)"
  shows "\<exists>hot_out cold_out.
           calculate_heat_transfer cfg hot_in cold_in cap_hot cap_cold duty_cap name =
             Inr (Min (set (Q_area # Q_flow_hot # Q_flow_cold #
                            (case duty_cap of None \<Rightarrow> [] | Some m \<Rightarrow> [m]))),
                  hot_out, cold_out,
                  (if (\<exists>m. duty_cap = Some m \<and> m < Min {Q_area, Q_flow_hot, Q_flow_cold})
                   then ''device''
                   else if Q_flow_cold < min Q_area Q_flow_hot then ''cold flow''
                   else if Q_flow_hot < Q_area then ''hot flow''
                   else ''area''))"
proof -
  have dT: "dT = hot_in - cold_in - approach_temp cfg" and pos: "0 < hot_in - cold_in - approach_temp cfg"
    using assms(6,7) by auto
  have m3: "Min {Q_area, Q_flow_hot, Q_flow_cold} = min Q_area (min Q_flow_hot Q_flow_cold)"
    by simp
  show ?thesis
    unfolding calculate_heat_transfer_transfer [OF assms(1-5) pos] limiting_Q_fst limiting_Q_snd
      assms(8-10) dT
    by (cases duty_cap) (auto simp: min_def)
qed

theorem heat_transfer_limiting_duty_witness:
  "(\<exists>hot_out cold_out.
      calculate_heat_transfer design 1 0 60000 36000 None ''heater_oil'' =
        Inr (300, hot_out, cold_out, ''cold flow'')) \<and>
   (\<exists>hot_out cold_out.
      calculate_heat_transfer design 1 0 60000 36000 (Some 100) ''heater_oil'' =
        Inr (100, hot_out, cold_out, ''device''))"
proof -
  have U: "U_values design ''heater_oil'' = Some 200"
    and A: "heat_exchange_areas design ''heater_oil'' = Some 5"
    and d: "dt design \<noteq> 0" and a: "approach_temp design = 1 / 2" and d60: "dt design = 60"
    by (simp_all add: design_def Let_def)
  have dT: "(1 / 2 :: real) = max (1 - 0 - approach_temp design) 0" and p: "(0::real) < 1 / 2"
    by (simp_all add: a)
  have h: "(60000 :: real) \<noteq> 0" and c: "(36000 :: real) \<noteq> 0" by simp_all
  have qa: "(500 :: real) = 200 * 5 * (1 / 2)"
    and qh: "(500 :: real) = 60000 * (1 / 2) / real_of_int (dt design)"
    and qc: "(300 :: real) = 36000 * (1 / 2) / real_of_int (dt design)"
    by (simp_all add: d60)
  show ?thesis
    using heat_transfer_limiting_duty [OF U A d h c dT p qa qh qc, of None]
      heat_transfer_limiting_duty [OF U A d h c dT p qa qh qc, of "Some 100"]
    by simp
qed

text \<open>
  Claim C2. With or without a device cap, whenever transfer occurs the call returns
  outlet temperatures \<open>hot_out = hot_in - Q * dt / cap_hot\<close> and
  \<open>cold_out = cold_in + Q * dt / cap_cold\<close>, so that
  \<open>Q * dt = cap_hot * (hot_in - hot_out) = cap_cold * (cold_out - cold_in)\<close>.
\<close>

theorem heat_transfer_energy_conserved:
  assumes "U_values cfg name = Some U" and "heat_exchange_areas cfg name = Some A"
    and "dt cfg \<noteq> 0" and "cap_hot \<noteq> 0" and "cap_cold \<noteq> 0"
    and "0 < max (hot_in - cold_in - approach_temp cfg) 0"
  shows "\<exists>Q hot_out cold_out reason.
           calculate_heat_transfer cfg hot_in cold_in cap_hot cap_cold duty_cap name =
             Inr (Q, hot_out, cold_out, reason) \<and>
           hot_out = hot_in - Q * real_of_int (dt cfg) / cap_hot \<and>
           cold_out = cold_in + Q * real_of_int (dt cfg) / cap_cold \<and>
           Q * real_of_int (dt cfg) = cap_hot * (hot_in - hot_out) \<and>
           Q * real_of_int (dt cfg) = cap_cold * (cold_out - cold_in)"
proof -
  have pos: "0 < hot_in - cold_in - approach_temp cfg"
    using assms(6) by auto
  show ?thesis
    unfolding calculate_heat_transfer_transfer [OF assms(1-5) pos]
    using assms(4,5) by simp
qed

theorem heat_transfer_energy_conserved_witness:
  "\<exists>Q hot_out cold_out reason.
     calculate_heat_transfer design 200 25 (880000 / 3) (880000 / 3) (Some 96000) ''heater_oil'' =
       Inr (Q, hot_out, cold_out, reason) \<and>
     hot_out = 200 - Q * real_of_int (dt design) / (880000 / 3) \<and>
     cold_out = 25 + Q * real_of_int (dt design) / (880000 / 3) \<and>
     Q * real_of_int (dt design) = 880000 / 3 * (200 - hot_out) \<and>
     Q * real_of_int (dt design) = 880000 / 3 * (cold_out - 25)"
proof -
  have d: "dt design \<noteq> 0" and h: "(880000 / 3 :: real) \<noteq> 0"
    and p: "0 < max (200 - 25 - approach_temp design) 0"
    by (simp_all add: design_scalars)
  show ?thesis
    using heat_transfer_energy_conserved [OF design_heater_oil d h h p, of "Some 96000"] .
qed

text \<open>
  Claim C5. For a configured exchanger, if \<open>hot_in - cold_in \<le> approach_temp\<close> the call
  returns duty 0, both temperatures unchanged and the reason "no transfer".
\<close>

theorem heat_transfer_no_transfer_boundary:
  assumes "U_values cfg name = Some U" and "heat_exchange_areas cfg name = Some A"
    and "hot_in - cold_in \<le> approach_temp cfg"
  shows "calculate_heat_transfer cfg hot_in cold_in cap_hot cap_cold duty_cap name =
           Inr (0, hot_in, cold_in, ''no transfer'')"
  using assms by (rule calculate_heat_transfer_no_transfer)

theorem heat_transfer_no_transfer_boundary_witness:
  "calculate_heat_transfer design (51 / 2) 25 (880000 / 3) (880000 / 3) (Some 96000)
     ''heater_oil'' = Inr (0, 51 / 2, 25, ''no transfer'')"
proof -
  have b: "(51 / 2 :: real) - 25 \<le> approach_temp design"
    by (simp add: design_scalars)
  show ?thesis
    using heat_transfer_no_transfer_boundary [OF design_heater_oil b] by simp
qed

lemma limiting_Q_nonneg:
  assumes "0 \<le> a" "0 \<le> h" "0 \<le> c" "\<And>m. md = Some m \<Longrightarrow> 0 \<le> m"
  shows "0 \<le> fst (limiting_Q a h c md)"
  using assms by (cases md) (simp_all add: limiting_Q_fst)

text \<open>
  Claim C7. With positive capacitances and, when supplied, a non-negative device cap
  (the timestep being positive and \<open>U * A\<close> non-negative, as in the script), the returned
  duty is non-negative, the hot outlet is not above the hot inlet and the cold outlet
  is not below the cold inlet.
\<close>

theorem heat_transfer_never_cold_to_hot:
  assumes "U_values cfg name = Some U" and "heat_exchange_areas cfg name = Some A"
    and "0 < dt cfg" and "0 \<le> U * A"
    and "0 < cap_hot" and "0 < cap_cold"
    and "\<forall>m. duty_cap = Some m \<longrightarrow> 0 \<le> m"
  shows "\<exists>Q hot_out cold_out reason.
           calculate_heat_transfer cfg hot_in cold_in cap_hot cap_cold duty_cap name =
             Inr (Q, hot_out, cold_out, reason) \<and>
           0 \<le> Q \<and> hot_out \<le> hot_in \<and> cold_in \<le> cold_out"
proof (cases "hot_in - cold_in \<le> approach_temp cfg")
  case True
  then show ?thesis
    by (simp add: calculate_heat_transfer_no_transfer [OF assms(1,2)])
next
  case False
  define dT where "dT = hot_in - cold_in - approach_temp cfg"
  define Q where "Q = fst (limiting_Q (U * A * dT) (cap_hot * dT / real_of_int (dt cfg))
                       (cap_cold * dT / real_of_int (dt cfg)) duty_cap)"
  have pos: "0 < dT" using False by (simp add: dT_def)
  have d: "0 < real_of_int (dt cfg)" using assms(3) by simp
  have "0 \<le> U * A * dT" using assms(4) pos by simp
  moreover have "0 \<le> cap_hot * dT / real_of_int (dt cfg)" using assms(5) pos d by simp
  moreover have "0 \<le> cap_cold * dT / real_of_int (dt cfg)" using assms(6) pos d by simp
  ultimately have Q0: "0 \<le> Q"
    unfolding Q_def using assms(7) by (intro limiting_Q_nonneg) auto
  have "0 \<le> Q * real_of_int (dt cfg) / cap_hot" "0 \<le> Q * real_of_int (dt cfg) / cap_cold"
    using Q0 d assms(5,6) by simp_all
  moreover have "calculate_heat_transfer cfg hot_in cold_in cap_hot cap_cold duty_cap name =
      Inr (Q, hot_in - Q * real_of_int (dt cfg) / cap_hot,
           cold_in + Q * real_of_int (dt cfg) / cap_cold,
           snd (limiting_Q (U * A * dT) (cap_hot * dT / real_of_int (dt cfg))
                       (cap_cold * dT / real_of_int (dt cfg)) duty_cap))"
    using calculate_heat_transfer_transfer [OF assms(1,2), of cap_hot cap_cold hot_in cold_in duty_cap]
      assms(3,5,6) pos
    by (simp add: Q_def dT_def)
  ultimately show ?thesis using Q0 by simp
qed

theorem heat_transfer_never_cold_to_hot_witness:
  "\<exists>Q hot_out cold_out reason.
     calculate_heat_transfer design 150 10 (880000 / 3) 2093000 (Some 60000) ''cooler_oil'' =
       Inr (Q, hot_out, cold_out, reason) \<and>
     0 \<le> Q \<and> hot_out \<le> 150 \<and> 10 \<le> cold_out"
proof -
  have d: "0 < dt design" and ua: "(0::real) \<le> 400 * 3"
    and h: "(0::real) < 880000 / 3" and c: "(0::real) < 2093000"
    and m: "\<forall>m. Some (60000::real) = Some m \<longrightarrow> 0 \<le> m"
    by (simp_all add: design_scalars)
  show ?thesis
    using heat_transfer_never_cold_to_hot [OF design_cooler_oil d ua h c m] by simp
qed

text \<open>
  Claim C3 says that when two consecutively checked candidates tie, the later-checked
  reason is returned. The comparisons of the script are strict, so a tie leaves the
  earlier reason in place: with area and hot-flow candidates both 500 and a larger
  cold-flow candidate the reason is "area".
\<close>

theorem heat_transfer_tie_counterexample:
  "U_values design ''heater_oil'' = Some 200 \<and>
   heat_exchange_areas design ''heater_oil'' = Some 5 \<and>
   (200 * 5 * (1 - 0 - approach_temp design) :: real) =
     60000 * (1 - 0 - approach_temp design) / real_of_int (dt design) \<and>
   calculate_heat_transfer design 1 0 60000 120000 None ''heater_oil'' =
     Inr (500, 1 / 2, 1 / 4, ''area'')"
  by (simp add: calculate_heat_transfer_def design_heater_oil design_scalars py_max_def
        limiting_Q_def)

text \<open>
  Claim C3, amended. Whenever transfer occurs, the returned reason is that of the
  earliest-checked candidate (area, hot flow, cold flow, device) equal to the returned
  duty; so when two consecutively checked candidates tie, the later one's reason is not
  returned.
\<close>

theorem heat_transfer_tie_keeps_earlier_reason:
  assumes "U_values cfg name = Some U" and "heat_exchange_areas cfg name = Some A"
    and "dt cfg \<noteq> 0" and "cap_hot \<noteq> 0" and "cap_cold \<noteq> 0"
    and "dT = max (hot_in - cold_in - approach_temp cfg) 0" and "0 < dT"
    and "Q_area = U * A * dT"
    and "Q_flow_hot = cap_hot * dT / real_of_int (dt cfg)"
    and "Q_flow_cold = cap_cold * dT / real_of_int (dt cfg)"
  shows "\<exists>Q hot_out cold_out reason.
           calculate_heat_transfer cfg hot_in cold_in cap_hot cap_cold duty_cap name =
             Inr (Q, hot_out, cold_out, reason) \<and>
           reason = (if Q = Q_area then ''area''
                     else if Q = Q_flow_hot then ''hot flow''
                     else if Q = Q_flow_cold then ''cold flow''
                     else ''device'') \<and>
           (Q_flow_hot = Q_area \<longrightarrow> reason \<noteq> ''hot flow'') \<and>
           (Q_flow_cold = min Q_area Q_flow_hot \<longrightarrow> reason \<noteq> ''cold flow'') \<and>
           (duty_cap = Some (min Q_area (min Q_flow_hot Q_flow_cold)) \<longrightarrow> reason \<noteq> ''device'')"
proof -
  have dT: "dT = hot_in - cold_in - approach_temp cfg" and pos: "0 < hot_in - cold_in - approach_temp cfg"
    using assms(6,7) by auto
  show ?thesis
    unfolding calculate_heat_transfer_transfer [OF assms(1-5) pos] limiting_Q_fst limiting_Q_snd
      assms(8-10) dT
    by (cases duty_cap) (auto simp: min_def)
qed


theorem heat_transfer_tie_keeps_earlier_reason_witness:
  "\<exists>Q hot_out cold_out reason.
     calculate_heat_transfer design 1 0 60000 120000 None ''heater_oil'' =
       Inr (Q, hot_out, cold_out, reason) \<and> reason \<noteq> ''hot flow''"
proof -
  have d: "dt design \<noteq> 0" and h: "(60000 :: real) \<noteq> 0" and c: "(120000 :: real) \<noteq> 0"
    and dT: "(1 / 2 :: real) = max (1 - 0 - approach_temp design) 0" and p: "(0::real) < 1 / 2"
    and qa: "(500 :: real) = 200 * 5 * (1 / 2)"
    and qh: "(500 :: real) = 60000 * (1 / 2) / real_of_int (dt design)"
    and qc: "(1000 :: real) = 120000 * (1 / 2) / real_of_int (dt design)"
    by (simp_all add: design_scalars)
  show ?thesis
    using heat_transfer_tie_keeps_earlier_reason [OF design_heater_oil d h c dT p qa qh qc, of None]
    by auto
qed

subsection \<open>The loop body raises no exception on a valid configuration\<close>

lemma calculate_heat_transfer_returns:
  assumes "U_values cfg name \<noteq> None" and "heat_exchange_areas cfg name \<noteq> None"
    and "dt cfg \<noteq> 0" and "ch \<noteq> 0" and "cc \<noteq> 0"
  shows "\<exists>Q ho co r. calculate_heat_transfer cfg hi ci ch cc md name = Inr (Q, ho, co, r)"
proof -
  obtain U A where k: "U_values cfg name = Some U" "heat_exchange_areas cfg name = Some A"
    using assms(1,2) by auto
  show ?thesis
  proof (cases "hi - ci \<le> approach_temp cfg")
    case True
    then show ?thesis by (simp add: calculate_heat_transfer_no_transfer [OF k])
  next
    case False
    then have "0 < hi - ci - approach_temp cfg" by simp
    then show ?thesis by (simp add: calculate_heat_transfer_transfer [OF k assms(3-5)])
  qed
qed

lemma calculate_insulation_loss_pipe_returns:
  assumes "U_values cfg ''pipe_outside'' \<noteq> None"
    and "heat_exchange_areas cfg ''pipe_outside'' \<noteq> None"
    and "m_dot_oil cfg * cp_oil cfg \<noteq> 0"
  shows "\<exists>Q T. calculate_insulation_loss cfg ''pipe'' T_current = Inr (Q, T)"
  using assms by (auto simp: calculate_insulation_loss_def Let_def)

lemma calculate_insulation_loss_static_returns:
  assumes "name \<noteq> ''pipe''" and "U_values cfg (name @ ''_outside'') \<noteq> None"
    and "heat_exchange_areas cfg (name @ ''_outside'') \<noteq> None"
    and "thermal_mass cfg name = Some c" and "c \<noteq> 0"
  shows "\<exists>Q T. calculate_insulation_loss cfg name T_current = Inr (Q, T)"
  using assms by (auto simp: calculate_insulation_loss_def Let_def)

lemma valid_configD:
  assumes "valid_config cfg"
  shows "0 < dt cfg" "dt cfg \<noteq> 0" "m_dot_oil cfg * cp_oil cfg \<noteq> 0"
    "U_values cfg ''heater_oil'' \<noteq> None" "heat_exchange_areas cfg ''heater_oil'' \<noteq> None"
    "U_values cfg ''cooler_oil'' \<noteq> None" "heat_exchange_areas cfg ''cooler_oil'' \<noteq> None"
    "U_values cfg ''oil_jacket'' \<noteq> None" "heat_exchange_areas cfg ''oil_jacket'' \<noteq> None"
    "U_values cfg ''jacket_reactor'' \<noteq> None" "heat_exchange_areas cfg ''jacket_reactor'' \<noteq> None"
    "U_values cfg ''pipe_outside'' \<noteq> None" "heat_exchange_areas cfg ''pipe_outside'' \<noteq> None"
    "U_values cfg ''jacket_outside'' \<noteq> None" "heat_exchange_areas cfg ''jacket_outside'' \<noteq> None"
    "U_values cfg ''reactor_outside'' \<noteq> None" "heat_exchange_areas cfg ''reactor_outside'' \<noteq> None"
    "\<exists>c. thermal_mass cfg ''flow'' = Some c \<and> c \<noteq> 0"
    "\<exists>c. thermal_mass cfg ''cooling'' = Some c \<and> c \<noteq> 0"
    "\<exists>c. thermal_mass cfg ''jacket'' = Some c \<and> c \<noteq> 0"
    "\<exists>c. thermal_mass cfg ''reactor'' = Some c \<and> c \<noteq> 0"
  using assms by (auto simp: valid_config_def split: option.splits)

lemma heater_cooler_returns:
  assumes "valid_config cfg"
  shows "\<exists>Qh Qc T lh lc. heater_cooler cfg st T_oil T_reactor = Inr (Qh, Qc, T, lh, lc)"
proof -
  note v = valid_configD [OF assms]
  obtain flow where f: "thermal_mass cfg ''flow'' = Some flow" "flow \<noteq> 0" using v(18) by auto
  obtain cooling where c: "thermal_mass cfg ''cooling'' = Some cooling" "cooling \<noteq> 0"
    using v(19) by auto
  obtain Q1 ho1 co1 r1 where h1:
    "calculate_heat_transfer cfg (T_heater_exit cfg T_oil T_reactor) T_oil flow flow
       (Some (heater_max_duty cfg)) ''heater_oil'' = Inr (Q1, ho1, co1, r1)"
    using calculate_heat_transfer_returns [OF v(4,5,2) f(2) f(2)] by blast
  obtain Q2 ho2 co2 r2 where h2:
    "calculate_heat_transfer cfg T_oil (cooling_water_temp cfg) flow cooling
       (Some (cooler_max_duty cfg)) ''cooler_oil'' = Inr (Q2, ho2, co2, r2)"
    using calculate_heat_transfer_returns [OF v(6,7,2) f(2) c(2)] by blast
  show ?thesis
    by (simp add: heater_cooler_def f c h1 h2)
qed

lemma oil_circuit_returns:
  assumes "valid_config cfg"
  shows "\<exists>r. oil_circuit cfg T_oil T_jacket T_reactor = Inr r"
proof -
  note v = valid_configD [OF assms]
  obtain flow where f: "thermal_mass cfg ''flow'' = Some flow" "flow \<noteq> 0" using v(18) by auto
  obtain jacket where j: "thermal_mass cfg ''jacket'' = Some jacket" "jacket \<noteq> 0"
    using v(20) by auto
  obtain reactor where r: "thermal_mass cfg ''reactor'' = Some reactor" "reactor \<noteq> 0"
    using v(21) by auto
  obtain Q1 T1 where p1: "calculate_insulation_loss cfg ''pipe'' T_oil = Inr (Q1, T1)"
    using calculate_insulation_loss_pipe_returns [OF v(12,13,3)] by blast
  obtain Q2 T2 J2 r2 where e1:
    "calculate_heat_transfer cfg T1 T_jacket flow jacket None ''oil_jacket'' = Inr (Q2, T2, J2, r2)"
    using calculate_heat_transfer_returns [OF v(8,9,2) f(2) j(2)] by blast
  obtain Q3 J3 R3 r3 where e2:
    "calculate_heat_transfer cfg J2 T_reactor jacket reactor None ''jacket_reactor'' =
       Inr (Q3, J3, R3, r3)"
    using calculate_heat_transfer_returns [OF v(10,11,2) j(2) r(2)] by blast
  have "\<exists>Q T. calculate_insulation_loss cfg ''jacket'' J3 = Inr (Q, T)"
    by (rule calculate_insulation_loss_static_returns [OF _ _ _ j]) (use v(14,15) in simp_all)
  then obtain Q4 J4 where l1: "calculate_insulation_loss cfg ''jacket'' J3 = Inr (Q4, J4)"
    by blast
  have "\<exists>Q T. calculate_insulation_loss cfg ''reactor'' R3 = Inr (Q, T)"
    by (rule calculate_insulation_loss_static_returns [OF _ _ _ r]) (use v(16,17) in simp_all)
  then obtain Q5 R5 where l2: "calculate_insulation_loss cfg ''reactor'' R3 = Inr (Q5, R5)"
    by blast
  obtain Q6 T6 where p2: "calculate_insulation_loss cfg ''pipe'' T2 = Inr (Q6, T6)"
    using calculate_insulation_loss_pipe_returns [OF v(12,13,3)] by blast
  show ?thesis
    by (simp add: oil_circuit_def f j r p1 e1 e2 l1 l2 p2)
qed

subsection \<open>The status update\<close>

lemma status_rank_simps:
  "status_rank ''heating'' = 0" "status_rank ''reaction'' = 1" "status_rank ''cooling'' = 2"
  by (simp_all add: status_rank_def)

lemma update_status_heating:
  "update_status cfg t T (''heating'', rst) =
     (if reactor_max_temp cfg \<le> T
      then (if reaction_time cfg \<le> 0 then Inr (''cooling'', Some t) else Inr (''reaction'', Some t))
      else Inr (''heating'', rst))"
  by (simp add: update_status_def)

lemma update_status_reaction:
  "update_status cfg t T (''reaction'', Some t0) =
     (if reaction_time cfg \<le> real_of_int (t - t0) then Inr (''cooling'', Some t0)
      else Inr (''reaction'', Some t0))"
  by (simp add: update_status_def)

lemma update_status_cooling:
  "update_status cfg t T (''cooling'', rst) = Inr (''cooling'', rst)"
  by (simp add: update_status_def)


lemma update_status_returns:
  assumes "st \<in> {''heating'', ''reaction'', ''cooling''}" and "(st = ''heating'') = (rst = None)"
  shows "\<exists>p. update_status cfg t T (st, rst) = Inr p"
proof -
  from assms(1) have "st = ''heating'' \<or> st = ''reaction'' \<or> st = ''cooling''"
    by simp
  then show ?thesis
  proof (elim disjE)
    assume h: "st = ''heating''"
    then show ?thesis by (simp add: update_status_heating)
  next
    assume r: "st = ''reaction''"
    then have "rst \<noteq> None" using assms(2) by simp
    then obtain t0 where "rst = Some t0" by (cases rst) simp_all
    with r show ?thesis by (simp add: update_status_reaction)
  next
    assume c: "st = ''cooling''"
    then show ?thesis by (simp add: update_status_cooling)
  qed
qed

lemma update_status_step:
  assumes "st \<in> {''heating'', ''reaction'', ''cooling''}" and "(st = ''heating'') = (rst = None)"
    and "update_status cfg t T (st, rst) = Inr (st', rst')"
  shows "st' \<in> {''heating'', ''reaction'', ''cooling''} \<and>
         ((st' = ''heating'') = (rst' = None)) \<and>
         status_rank st \<le> status_rank st' \<and>
         (st = ''heating'' \<and> st' \<noteq> ''heating'' \<longrightarrow>
            reactor_max_temp cfg \<le> T \<and> rst' = Some t) \<and>
         (st \<noteq> ''cooling'' \<and> st' = ''cooling'' \<longrightarrow>
            (\<exists>t0. rst' = Some t0 \<and> reaction_time cfg \<le> real_of_int (t - t0))) \<and>
         (st = ''cooling'' \<longrightarrow> st' = ''cooling'') \<and>
         ((rst' \<noteq> rst) = (st = ''heating'' \<and> st' \<noteq> ''heating''))"
proof -
  from assms(1) have "st = ''heating'' \<or> st = ''reaction'' \<or> st = ''cooling''"
    by simp
  then show ?thesis
  proof (elim disjE)
    assume h: "st = ''heating''"
    then have n: "rst = None" using assms(2) by simp
    show ?thesis
      using assms(3) unfolding h n update_status_heating
      by (clarsimp simp: status_rank_simps split: if_splits)
  next
    assume r: "st = ''reaction''"
    then have "rst \<noteq> None" using assms(2) by simp
    then obtain t0 where n: "rst = Some t0" by (cases rst) simp_all
    show ?thesis
      using assms(3) unfolding r n update_status_reaction
      by (clarsimp simp: status_rank_simps split: if_splits)
  next
    assume c: "st = ''cooling''"
    then have "rst \<noteq> None" using assms(2) by simp
    then obtain t0 where n: "rst = Some t0" by (cases rst) simp_all
    show ?thesis
      using assms(3) unfolding c n update_status_cooling
      by (clarsimp simp: status_rank_simps)
  qed
qed

subsection \<open>One iteration\<close>

lemma loop_body_InrE:
  assumes "loop_body cfg t s = Inr s'"
  obtains p h r where
    "update_status cfg t (st_T_reactor s) (st_status s, st_reaction_start_time s) = Inr p"
    "heater_cooler cfg (fst p) (st_T_oil s) (st_T_reactor s) = Inr h"
    "oil_circuit cfg (fst (snd (snd h))) (st_T_jacket s) (st_T_reactor s) = Inr r"
    "st_status s' = fst p" "st_reaction_start_time s' = snd p"
    "\<exists>a1 a2 a3 a4 a5 a6 a7 a8 a9 a10 a11 a12 a13 a14.
       st_results s' =
         log_results (st_results s) t (fst (snd (snd h))) a1 a2 a3 a4 a5
           (fst h) (fst (snd h)) a6 a7 a8 a9 a10 a11
           (fst (snd (snd (snd h)))) (snd (snd (snd (snd h)))) a12 a13 a14"
proof (cases "update_status cfg t (st_T_reactor s) (st_status s, st_reaction_start_time s)")
  case (Inl e)
  then show ?thesis using assms by (simp add: loop_body_def)
next
  case p: (Inr p)
  show ?thesis
  proof (cases "heater_cooler cfg (fst p) (st_T_oil s) (st_T_reactor s)")
    case (Inl e)
    then show ?thesis using assms p by (simp add: loop_body_def split_beta)
  next
    case h: (Inr h)
    show ?thesis
    proof (cases "oil_circuit cfg (fst (snd (snd h))) (st_T_jacket s) (st_T_reactor s)")
      case (Inl e)
      then show ?thesis using assms p h by (simp add: loop_body_def split_beta)
    next
      case r: (Inr r)
      have "s' = \<lparr> st_T_oil = fst (fst r), st_T_jacket = fst (snd (fst r)),
                   st_T_reactor = snd (snd (fst r)),
                   st_status = fst p, st_reaction_start_time = snd p,
                   st_results =
                     log_results (st_results s) t (fst (snd (snd h)))
                       (fst (fst (snd r))) (snd (fst (snd r)))
                       (fst (fst r)) (fst (snd (fst r))) (snd (snd (fst r)))
                       (fst h) (fst (snd h))
                       (fst (fst (snd (snd r)))) (fst (snd (fst (snd (snd r)))))
                       (fst (snd (snd (fst (snd (snd r))))))
                       (fst (snd (snd (snd (fst (snd (snd r)))))))
                       (fst (snd (snd (snd (snd (fst (snd (snd r))))))))
                       (snd (snd (snd (snd (snd (fst (snd (snd r))))))))
                       (fst (snd (snd (snd h)))) (snd (snd (snd (snd h))))
                       (fst (snd (snd (snd r)))) (snd (snd (snd (snd r))))
                       (fst (snd (snd (snd (fst (snd (snd r)))))) +
                        fst (snd (snd (snd (snd (fst (snd (snd r))))))) +
                        snd (snd (snd (snd (snd (fst (snd (snd r))))))) +
                        fst (snd (snd (fst (snd (snd r)))))) \<rparr>"
        using assms p h r by (simp add: loop_body_def split_beta Let_def)
      then have "st_status s' = fst p \<and> st_reaction_start_time s' = snd p \<and>
        (\<exists>a1 a2 a3 a4 a5 a6 a7 a8 a9 a10 a11 a12 a13 a14.
         st_results s' =
           log_results (st_results s) t (fst (snd (snd h))) a1 a2 a3 a4 a5
             (fst h) (fst (snd h)) a6 a7 a8 a9 a10 a11
             (fst (snd (snd (snd h)))) (snd (snd (snd (snd h)))) a12 a13 a14)"
        by (simp del: ex_simps) (intro exI, rule refl)
      then show ?thesis using that p h r by blast
    qed
  qed
qed

lemma column_lengths_log_results:
  "column_lengths (log_results res t a1 a2 a3 a4 a5 a6 a7 a8 a9 a10 a11 a12 a13 a14 a15 a16 a17 a18 a19) =
     map Suc (column_lengths res)"
  by (simp add: log_results_def column_lengths_def)

lemma r_time_log_results:
  "r_time (log_results res t a1 a2 a3 a4 a5 a6 a7 a8 a9 a10 a11 a12 a13 a14 a15 a16 a17 a18 a19) =
     r_time res @ [t]"
  by (simp add: log_results_def)

lemma heater_columns_log_results:
  "r_T_oil_out_heater (log_results res t a1 a2 a3 a4 a5 a6 a7 a8 a9 a10 a11 a12 a13 a14 a15 a16 a17 a18 a19) =
     r_T_oil_out_heater res @ [a1]"
  "r_Q_heater (log_results res t a1 a2 a3 a4 a5 a6 a7 a8 a9 a10 a11 a12 a13 a14 a15 a16 a17 a18 a19) =
     r_Q_heater res @ [a7]"
  "r_limit_heater (log_results res t a1 a2 a3 a4 a5 a6 a7 a8 a9 a10 a11 a12 a13 a14 a15 a16 a17 a18 a19) =
     r_limit_heater res @ [a15]"
  by (simp_all add: log_results_def)

lemma status_okD:
  assumes "status_ok s"
  shows "st_status s \<in> {''heating'', ''reaction'', ''cooling''}"
    and "(st_status s = ''heating'') = (st_reaction_start_time s = None)"
  using assms unfolding status_ok_def by (rule conjunct1, rule conjunct2)

lemma loop_body_status:
  assumes "loop_body cfg t s = Inr s'"
  shows "update_status cfg t (st_T_reactor s) (st_status s, st_reaction_start_time s) =
           Inr (st_status s', st_reaction_start_time s')"
  using assms by (elim loop_body_InrE) simp

lemma loop_body_results:
  assumes "loop_body cfg t s = Inr s'"
  shows "column_lengths (st_results s') = map Suc (column_lengths (st_results s))"
    and "r_time (st_results s') = r_time (st_results s) @ [t]"
proof -
  from assms obtain a1 a2 a3 a4 a5 a6 a7 a8 a9 a10 a11 a12 a13 a14 a15 a16 a17 a18 a19
    where e: "st_results s' =
      log_results (st_results s) t a1 a2 a3 a4 a5 a6 a7 a8 a9 a10 a11 a12 a13 a14 a15 a16 a17 a18 a19"
    by (elim loop_body_InrE exE) 
  show "column_lengths (st_results s') = map Suc (column_lengths (st_results s))"
    unfolding e by (rule column_lengths_log_results)
  show "r_time (st_results s') = r_time (st_results s) @ [t]"
    unfolding e by (rule r_time_log_results)
qed

lemma loop_body_returns:
  assumes "valid_config cfg" and "status_ok s"
  shows "\<exists>s'. loop_body cfg t s = Inr s'"
proof -
  note a = status_okD(1) [OF assms(2)] and b = status_okD(2) [OF assms(2)]
  from update_status_returns [OF a b, of cfg t "st_T_reactor s"]
  obtain p where u:
    "update_status cfg t (st_T_reactor s) (st_status s, st_reaction_start_time s) = Inr p"
    by (elim exE)
  from heater_cooler_returns [OF assms(1), of "fst p" "st_T_oil s" "st_T_reactor s"]
  obtain h where h: "heater_cooler cfg (fst p) (st_T_oil s) (st_T_reactor s) = Inr h"
    by (elim exE)
  from oil_circuit_returns [OF assms(1), of "fst (snd (snd h))" "st_T_jacket s" "st_T_reactor s"]
  obtain r where c: "oil_circuit cfg (fst (snd (snd h))) (st_T_jacket s) (st_T_reactor s) = Inr r"
    by (elim exE)
  show ?thesis
    by (simp add: loop_body_def u h c Let_def split_beta)
qed

lemma loop_body_step:
  assumes "status_ok s" and "loop_body cfg t s = Inr s'"
  shows "status_ok s' \<and>
         status_rank (st_status s) \<le> status_rank (st_status s') \<and>
         (st_status s = ''heating'' \<and> st_status s' \<noteq> ''heating'' \<longrightarrow>
            reactor_max_temp cfg \<le> st_T_reactor s \<and> st_reaction_start_time s' = Some t) \<and>
         (st_status s \<noteq> ''cooling'' \<and> st_status s' = ''cooling'' \<longrightarrow>
            (\<exists>t0. st_reaction_start_time s' = Some t0 \<and>
                  reaction_time cfg \<le> real_of_int (t - t0))) \<and>
         (st_status s = ''cooling'' \<longrightarrow> st_status s' = ''cooling'') \<and>
         ((st_reaction_start_time s' \<noteq> st_reaction_start_time s) =
            (st_status s = ''heating'' \<and> st_status s' \<noteq> ''heating''))"
proof -
  note a = status_okD(1) [OF assms(1)] and b = status_okD(2) [OF assms(1)]
  from update_status_step [OF a b loop_body_status [OF assms(2)]]
  show ?thesis
    unfolding status_ok_def conj_assoc .
qed

subsection \<open>Runs\<close>

lemma loop_trace_Inl: "loop_body cfg t s = Inl e \<Longrightarrow> loop_trace cfg (t # ts) s = []"
  by simp

lemma loop_trace_Inr:
  "loop_body cfg t s = Inr s' \<Longrightarrow> loop_trace cfg (t # ts) s = s' # loop_trace cfg ts s'"
  by simp

lemma loop_steps_Nil: "loop_steps cfg [] s = []"
  by (simp add: loop_steps_def)

lemma loop_steps_Inl: "loop_body cfg t s = Inl e \<Longrightarrow> loop_steps cfg (t # ts) s = []"
  by (simp add: loop_steps_def)

lemma loop_steps_Inr:
  "loop_body cfg t s = Inr s' \<Longrightarrow> loop_steps cfg (t # ts) s = (t, s, s') # loop_steps cfg ts s'"
  by (simp add: loop_steps_def)

lemma loop_trace_sorted:
  assumes "status_ok s"
  shows "sorted (map (\<lambda>x. status_rank (st_status x)) (s # loop_trace cfg ts s))"
  using assms
proof (induction ts arbitrary: s)
  case Nil
  then show ?case by simp
next
  case (Cons t ts)
  show ?case
  proof (cases "loop_body cfg t s")
    case (Inl e)
    then show ?thesis by (simp only: loop_trace_Inl) simp
  next
    case (Inr s')
    note st = loop_body_step [OF Cons.prems Inr]
    have ok: "status_ok s'" using st by (rule conjunct1)
    have le: "status_rank (st_status s) \<le> status_rank (st_status s')"
      using st by (elim conjE)
    show ?thesis
      unfolding loop_trace_Inr [OF Inr] list.map sorted2
      using le Cons.IH [OF ok] by simp
  qed
qed

lemma loop_steps_props:
  assumes "status_ok s"
  shows "\<forall>(t, a, b) \<in> set (loop_steps cfg ts s).
           status_ok a \<and> loop_body cfg t a = Inr b"
  using assms
proof (induction ts arbitrary: s)
  case Nil
  then show ?case by (simp add: loop_steps_Nil)
next
  case (Cons t ts)
  show ?case
  proof (cases "loop_body cfg t s")
    case (Inl e)
    then show ?thesis by (simp add: loop_steps_Inl)
  next
    case (Inr s')
    have ok: "status_ok s'" using loop_body_step [OF Cons.prems Inr] by (rule conjunct1)
    show ?thesis
      unfolding loop_steps_Inr [OF Inr]
      using Cons.prems Inr Cons.IH [OF ok] by simp
  qed
qed

lemma loop_trace_not_heating:
  assumes "status_ok s" and "st_status s \<noteq> ''heating''"
  shows "st_status (last (s # loop_trace cfg ts s)) \<noteq> ''heating'' \<and>
         filter (\<lambda>(t, a, b). st_reaction_start_time b \<noteq> st_reaction_start_time a)
           (loop_steps cfg ts s) = []"
  using assms
proof (induction ts arbitrary: s)
  case Nil
  then show ?case by (simp add: loop_steps_Nil)
next
  case (Cons t ts)
  show ?case
  proof (cases "loop_body cfg t s")
    case (Inl e)
    then show ?thesis using Cons.prems(2) by (simp add: loop_steps_Inl)
  next
    case (Inr s')
    note st = loop_body_step [OF Cons.prems(1) Inr]
    have ok: "status_ok s'" using st by (rule conjunct1)
    have le: "status_rank (st_status s) \<le> status_rank (st_status s')"
      using st by (elim conjE)
    have nh: "st_status s' \<noteq> ''heating''"
    proof
      assume "st_status s' = ''heating''"
      then have "status_rank (st_status s) = 0" using le by (simp add: status_rank_simps)
      then show False using Cons.prems(2) by (simp add: status_rank_def split: if_splits)
    qed
    have same: "st_reaction_start_time s' = st_reaction_start_time s"
      using st Cons.prems(2) by (elim conjE) simp
    show ?thesis
      unfolding loop_trace_Inr [OF Inr] loop_steps_Inr [OF Inr]
      using Cons.IH [OF ok nh] same by simp
  qed
qed

lemma loop_steps_assignments:
  assumes "status_ok s" and "st_status s = ''heating''"
  shows "length (filter (\<lambda>(t, a, b). st_reaction_start_time b \<noteq> st_reaction_start_time a)
           (loop_steps cfg ts s)) =
         (if st_status (last (s # loop_trace cfg ts s)) = ''heating'' then 0 else 1)"
  using assms
proof (induction ts arbitrary: s)
  case Nil
  then show ?case by (simp add: loop_steps_Nil)
next
  case (Cons t ts)
  show ?case
  proof (cases "loop_body cfg t s")
    case (Inl e)
    then show ?thesis using Cons.prems(2) by (simp add: loop_steps_Inl)
  next
    case (Inr s')
    note st = loop_body_step [OF Cons.prems(1) Inr]
    have ok: "status_ok s'" using st by (rule conjunct1)
    have ch: "(st_reaction_start_time s' \<noteq> st_reaction_start_time s) =
                (st_status s' \<noteq> ''heating'')"
      using st Cons.prems(2) by (elim conjE) simp
    show ?thesis
    proof (cases "st_status s' = ''heating''")
      case True
      then have same: "st_reaction_start_time s' = st_reaction_start_time s" using ch by simp
      show ?thesis
        unfolding loop_trace_Inr [OF Inr] loop_steps_Inr [OF Inr]
        using Cons.IH [OF ok True] same by simp
    next
      case False
      then have diff: "st_reaction_start_time s' \<noteq> st_reaction_start_time s" using ch by simp
      show ?thesis
        unfolding loop_trace_Inr [OF Inr] loop_steps_Inr [OF Inr]
        using loop_trace_not_heating [OF ok False, of cfg ts] diff by simp
    qed
  qed
qed

lemma loop_trace_ok:
  assumes "status_ok s"
  shows "\<forall>x \<in> set (s # loop_trace cfg ts s). status_ok x"
  using assms
proof (induction ts arbitrary: s)
  case Nil
  then show ?case by simp
next
  case (Cons t ts)
  show ?case
  proof (cases "loop_body cfg t s")
    case (Inl e)
    then show ?thesis using Cons.prems by simp
  next
    case (Inr s')
    have ok: "status_ok s'" using loop_body_step [OF Cons.prems Inr] by (rule conjunct1)
    show ?thesis
      unfolding loop_trace_Inr [OF Inr]
      using Cons.prems Cons.IH [OF ok] by simp
  qed
qed

lemma run_loop_trace:
  assumes "run_loop cfg ts s = Inr s'"
  shows "s' = last (s # loop_trace cfg ts s) \<and> length (loop_trace cfg ts s) = length ts"
  using assms
proof (induction ts arbitrary: s)
  case Nil
  then show ?case by simp
next
  case (Cons t ts)
  show ?case
  proof (cases "loop_body cfg t s")
    case (Inl e)
    then show ?thesis using Cons.prems by simp
  next
    case (Inr s1)
    then have "run_loop cfg ts s1 = Inr s'" using Cons.prems by simp
    from Cons.IH [OF this] show ?thesis
      unfolding loop_trace_Inr [OF Inr] by simp
  qed
qed

lemma run_loop_results:
  assumes "valid_config cfg" and "status_ok s"
  shows "\<exists>s'. run_loop cfg ts s = Inr s' \<and>
              r_time (st_results s') = r_time (st_results s) @ ts \<and>
              column_lengths (st_results s') =
                map (\<lambda>n. n + length ts) (column_lengths (st_results s))"
  using assms(2)
proof (induction ts arbitrary: s)
  case Nil
  then show ?case by simp
next
  case (Cons t ts)
  from loop_body_returns [OF assms(1) Cons.prems, of t]
  obtain s1 where b: "loop_body cfg t s = Inr s1" by (elim exE)
  have ok: "status_ok s1" using loop_body_step [OF Cons.prems b] by (rule conjunct1)
  from Cons.IH [OF ok] obtain s' where r: "run_loop cfg ts s1 = Inr s'"
    and tm: "r_time (st_results s') = r_time (st_results s1) @ ts"
    and cl: "column_lengths (st_results s') =
               map (\<lambda>n. n + length ts) (column_lengths (st_results s1))"
    by (elim exE conjE)
  have "run_loop cfg (t # ts) s = Inr s'" using b r by simp
  moreover have "r_time (st_results s') = r_time (st_results s) @ t # ts"
    unfolding tm loop_body_results(2) [OF b] by simp
  moreover have "column_lengths (st_results s') =
                   map (\<lambda>n. n + length (t # ts)) (column_lengths (st_results s))"
    unfolding cl loop_body_results(1) [OF b] by simp
  ultimately show ?case by (intro exI conjI)
qed

lemma py_range_divides:
  assumes "0 < step" and "0 \<le> stop" and "step dvd stop"
  shows "py_range 0 stop step = Inr (map (\<lambda>i. int i * step) [0 ..< nat (stop div step)])"
proof -
  from assms(3) obtain k where k: "stop = step * k" by (elim dvdE)
  have "(stop - 0 + step - 1) div step = stop div step"
  proof -
    have "(stop + step - 1) div step = (step - 1 + k * step) div step"
      unfolding k by (simp add: algebra_simps)
    also have "\<dots> = (step - 1) div step + k"
      using assms(1) by simp
    also have "(step - 1) div step = 0" using assms(1) by (simp add: div_pos_pos_trivial)
    finally show ?thesis using assms(1) by (simp add: k)
  qed
  then show ?thesis using assms(1) by (simp add: py_range_def)
qed

lemma initial_state_ok: "status_ok (initial_state cfg)"
  by (simp add: status_ok_def initial_state_def)

lemma initial_state_results:
  "r_time (st_results (initial_state cfg)) = []"
  "column_lengths (st_results (initial_state cfg)) = replicate 20 0"
  by (simp_all add: initial_state_def empty_results_def column_lengths_def numeral_eq_Suc)

subsection \<open>The number of records\<close>

lemma design_keys:
  "U_values design ''heater_oil'' \<noteq> None" "heat_exchange_areas design ''heater_oil'' \<noteq> None"
  "U_values design ''cooler_oil'' \<noteq> None" "heat_exchange_areas design ''cooler_oil'' \<noteq> None"
  "U_values design ''oil_jacket'' \<noteq> None" "heat_exchange_areas design ''oil_jacket'' \<noteq> None"
  "U_values design ''jacket_reactor'' \<noteq> None"
  "heat_exchange_areas design ''jacket_reactor'' \<noteq> None"
  "U_values design ''pipe_outside'' \<noteq> None" "heat_exchange_areas design ''pipe_outside'' \<noteq> None"
  "U_values design ''jacket_outside'' \<noteq> None"
  "heat_exchange_areas design ''jacket_outside'' \<noteq> None"
  "U_values design ''reactor_outside'' \<noteq> None"
  "heat_exchange_areas design ''reactor_outside'' \<noteq> None"
  by (simp_all add: design_def Let_def)

lemma design_static_masses:
  "thermal_mass design ''jacket'' = Some (mass_jacket * cp_steel)"
  "thermal_mass design ''reactor'' =
     Some (mass_reactor * cp_steel + (Mineral_weight * cp_minerals + Water_weight * cp_water))"
  by (simp_all add: design_def Let_def)

lemma static_masses_pos:
  "0 < mass_jacket * cp_steel"
  "0 < mass_reactor * cp_steel + (Mineral_weight * cp_minerals + Water_weight * cp_water)"
  by (simp_all add: mass_jacket_def mass_reactor_def shell_volume_def end_volume_def
      math_pi_def radius_def diameter_def thickness_def height_def rho_steel_def cp_steel_def
      Mineral_weight_def Water_weight_def cp_minerals_def cp_water_def power2_eq_square)

lemma valid_config_design: "valid_config design"
proof -
  have j: "mass_jacket * cp_steel \<noteq> 0"
    using static_masses_pos(1) by (rule less_imp_neq [THEN not_sym])
  have r: "mass_reactor * cp_steel + (Mineral_weight * cp_minerals + Water_weight * cp_water) \<noteq> 0"
    using static_masses_pos(2) by (rule less_imp_neq [THEN not_sym])
  show ?thesis
    using j r
    by (simp add: valid_config_def design_keys [simplified] design_static_masses design_flow
        design_scalars)
qed

lemma range_bound:
  fixes d e :: int
  assumes "0 < d" and "d dvd e" and "i < nat (e div d)"
  shows "0 \<le> int i * d \<and> int i * d < e"
proof -
  have "int i + 1 \<le> e div d" using assms(3) by linarith
  then have "(int i + 1) * d \<le> (e div d) * d"
    using assms(1) by (intro mult_right_mono) simp_all
  also have "\<dots> = e" using assms(2) by simp
  finally have "int i * d + d \<le> e" by (simp add: algebra_simps)
  then show ?thesis using assms(1) by simp
qed

text \<open>
  Claim C9. On a valid configuration whose timestep divides a non-negative end time, the
  run raises nothing, the recorded times are \<open>0, dt, 2 * dt, \<dots>\<close>, all below the end
  time, and every one of the twenty columns has exactly \<open>end_time div dt\<close> entries;
  every completed iteration appends exactly one entry to every column.
\<close>

theorem simulate_record_count:
  assumes "valid_config cfg" and "0 \<le> end_time cfg" and "dt cfg dvd end_time cfg"
  shows "(\<exists>s. simulate cfg = Inr s \<and>
              r_time (st_results s) =
                map (\<lambda>i. int i * dt cfg) [0 ..< nat (end_time cfg div dt cfg)] \<and>
              (\<forall>t \<in> set (r_time (st_results s)). 0 \<le> t \<and> t < end_time cfg) \<and>
              column_lengths (st_results s) = replicate 20 (nat (end_time cfg div dt cfg))) \<and>
         (\<forall>t s s'. loop_body cfg t s = Inr s' \<longrightarrow>
              column_lengths (st_results s') = map Suc (column_lengths (st_results s)))"
proof
  define n where "n = nat (end_time cfg div dt cfg)"
  define ts where "ts = map (\<lambda>i. int i * dt cfg) [0 ..< n]"
  have d: "0 < dt cfg" using valid_configD(1) [OF assms(1)] .
  have rg: "py_range 0 (end_time cfg) (dt cfg) = Inr ts"
    unfolding ts_def n_def using d assms(2,3) by (rule py_range_divides)
  from run_loop_results [OF assms(1) initial_state_ok [of cfg], of ts]
  obtain s where r: "run_loop cfg ts (initial_state cfg) = Inr s"
    and tm: "r_time (st_results s) = r_time (st_results (initial_state cfg)) @ ts"
    and cl: "column_lengths (st_results s) =
               map (\<lambda>k. k + length ts) (column_lengths (st_results (initial_state cfg)))"
    by (elim exE conjE)
  have sim: "simulate cfg = Inr s" by (simp add: simulate_def rg r)
  have tm': "r_time (st_results s) = ts" using tm by (simp add: initial_state_results)
  have cl': "column_lengths (st_results s) = replicate 20 n"
    unfolding cl initial_state_results by (simp add: ts_def)
  have bound: "\<forall>t \<in> set ts. 0 \<le> t \<and> t < end_time cfg"
  proof
    fix t assume "t \<in> set ts"
    then obtain i where i: "i < n" and t: "t = int i * dt cfg"
      unfolding ts_def by (auto simp del: of_nat_mult)
    show "0 \<le> t \<and> t < end_time cfg"
      unfolding t using d assms(3) i [unfolded n_def] by (rule range_bound)
  qed
  have tm'': "r_time (st_results s) =
                map (\<lambda>i. int i * dt cfg) [0 ..< nat (end_time cfg div dt cfg)]"
    using tm' unfolding ts_def n_def .
  have bound': "\<forall>t \<in> set (r_time (st_results s)). 0 \<le> t \<and> t < end_time cfg"
    unfolding tm' using bound .
  have cl'': "column_lengths (st_results s) = replicate 20 (nat (end_time cfg div dt cfg))"
    using cl' unfolding n_def .
  show "\<exists>s. simulate cfg = Inr s \<and>
              r_time (st_results s) =
                map (\<lambda>i. int i * dt cfg) [0 ..< nat (end_time cfg div dt cfg)] \<and>
              (\<forall>t \<in> set (r_time (st_results s)). 0 \<le> t \<and> t < end_time cfg) \<and>
              column_lengths (st_results s) = replicate 20 (nat (end_time cfg div dt cfg))"
    using sim tm'' bound' cl'' by (intro exI [of _ s] conjI)
next
  show "\<forall>t s s'. loop_body cfg t s = Inr s' \<longrightarrow>
              column_lengths (st_results s') = map Suc (column_lengths (st_results s))"
    using loop_body_results(1) by (intro allI impI)
qed

theorem simulate_record_count_witness:
  "\<exists>s. simulate design = Inr s \<and> column_lengths (st_results s) = replicate 20 360 \<and>
       length (r_time (st_results s)) = 360"
proof -
  have e: "0 \<le> end_time design" and d: "dt design dvd end_time design"
    and n: "nat (end_time design div dt design) = 360"
    by (simp_all add: design_scalars)
  from simulate_record_count [OF valid_config_design e d]
  obtain s where s: "simulate design = Inr s"
    and tm: "r_time (st_results s) = map (\<lambda>i. int i * dt design) [0 ..< 360]"
    and cl: "column_lengths (st_results s) = replicate 20 360"
    unfolding n by (elim conjE exE)
  have "length (r_time (st_results s)) = 360" unfolding tm by simp
  with s cl show ?thesis by (intro exI [of _ s] conjI)
qed

subsection \<open>The process state machine\<close>

lemma loop_trace_length:
  assumes "valid_config cfg" and "status_ok s"
  shows "length (loop_trace cfg ts s) = length ts"
proof -
  from run_loop_results [OF assms, of ts]
  obtain s' where "run_loop cfg ts s = Inr s'" by (elim exE conjE)
  from run_loop_trace [OF this] show ?thesis by (rule conjunct2)
qed

lemma valid_config_short_hold: "valid_config short_hold"
  using valid_config_design by (simp add: valid_config_def short_hold_def)

text \<open>
  Claim C4. From a state that is heating with no reaction start time, for every
  configuration and every list of times, the statuses of the successive states of the
  run are non-decreasing in the order heating < reaction < cooling and are always one
  of the three; in every completed iteration, heating is left only if the reactor
  temperature has reached the reactor max temperature, cooling is entered only if the
  hold duration has elapsed since the reaction start time, cooling is never left, and
  the reaction start time changes exactly when heating is left, to the time of that
  iteration; over the whole run it is assigned once if heating is ever left and never
  otherwise.
\<close>

theorem status_sequence_monotone:
  assumes "st_status s0 = ''heating''" and "st_reaction_start_time s0 = None"
  shows "sorted (map (\<lambda>s. status_rank (st_status s)) (s0 # loop_trace cfg ts s0)) \<and>
         (\<forall>s \<in> set (s0 # loop_trace cfg ts s0).
            st_status s \<in> {''heating'', ''reaction'', ''cooling''}) \<and>
         (\<forall>(t, a, b) \<in> set (loop_steps cfg ts s0).
            (st_status a = ''heating'' \<and> st_status b \<noteq> ''heating'' \<longrightarrow>
               reactor_max_temp cfg \<le> st_T_reactor a \<and> st_reaction_start_time b = Some t) \<and>
            (st_status a \<noteq> ''cooling'' \<and> st_status b = ''cooling'' \<longrightarrow>
               (\<exists>t0. st_reaction_start_time b = Some t0 \<and>
                     reaction_time cfg \<le> real_of_int (t - t0))) \<and>
            (st_status a = ''cooling'' \<longrightarrow> st_status b = ''cooling'') \<and>
            ((st_reaction_start_time b \<noteq> st_reaction_start_time a) =
               (st_status a = ''heating'' \<and> st_status b \<noteq> ''heating''))) \<and>
         length (filter (\<lambda>(t, a, b). st_reaction_start_time b \<noteq> st_reaction_start_time a)
                   (loop_steps cfg ts s0)) =
           (if st_status (last (s0 # loop_trace cfg ts s0)) = ''heating'' then 0 else 1)"
proof -
  have ok: "status_ok s0" using assms by (simp add: status_ok_def)
  have mono: "sorted (map (\<lambda>s. status_rank (st_status s)) (s0 # loop_trace cfg ts s0))"
    using ok by (rule loop_trace_sorted)
  have dom: "\<forall>s \<in> set (s0 # loop_trace cfg ts s0).
               st_status s \<in> {''heating'', ''reaction'', ''cooling''}"
  proof
    fix s assume "s \<in> set (s0 # loop_trace cfg ts s0)"
    with loop_trace_ok [OF ok, of cfg ts] have "status_ok s" by (rule bspec)
    then show "st_status s \<in> {''heating'', ''reaction'', ''cooling''}" by (rule status_okD(1))
  qed
  have steps: "\<forall>(t, a, b) \<in> set (loop_steps cfg ts s0).
            (st_status a = ''heating'' \<and> st_status b \<noteq> ''heating'' \<longrightarrow>
               reactor_max_temp cfg \<le> st_T_reactor a \<and> st_reaction_start_time b = Some t) \<and>
            (st_status a \<noteq> ''cooling'' \<and> st_status b = ''cooling'' \<longrightarrow>
               (\<exists>t0. st_reaction_start_time b = Some t0 \<and>
                     reaction_time cfg \<le> real_of_int (t - t0))) \<and>
            (st_status a = ''cooling'' \<longrightarrow> st_status b = ''cooling'') \<and>
            ((st_reaction_start_time b \<noteq> st_reaction_start_time a) =
               (st_status a = ''heating'' \<and> st_status b \<noteq> ''heating''))"
  proof (intro ballI)
    fix x assume x: "x \<in> set (loop_steps cfg ts s0)"
    obtain t a b where e: "x = (t, a, b)" by (cases x)
    from bspec [OF loop_steps_props [OF ok, of cfg ts] x]
    have p: "status_ok a \<and> loop_body cfg t a = Inr b" unfolding e prod.case .
    from loop_body_step [OF conjunct1 [OF p] conjunct2 [OF p]]
    show "case x of (t, a, b) \<Rightarrow>
            (st_status a = ''heating'' \<and> st_status b \<noteq> ''heating'' \<longrightarrow>
               reactor_max_temp cfg \<le> st_T_reactor a \<and> st_reaction_start_time b = Some t) \<and>
            (st_status a \<noteq> ''cooling'' \<and> st_status b = ''cooling'' \<longrightarrow>
               (\<exists>t0. st_reaction_start_time b = Some t0 \<and>
                     reaction_time cfg \<le> real_of_int (t - t0))) \<and>
            (st_status a = ''cooling'' \<longrightarrow> st_status b = ''cooling'') \<and>
            ((st_reaction_start_time b \<noteq> st_reaction_start_time a) =
               (st_status a = ''heating'' \<and> st_status b \<noteq> ''heating''))"
      unfolding e prod.case by (elim conjE) (intro conjI; assumption)
  qed
  have once: "length (filter (\<lambda>(t, a, b). st_reaction_start_time b \<noteq> st_reaction_start_time a)
                   (loop_steps cfg ts s0)) =
           (if st_status (last (s0 # loop_trace cfg ts s0)) = ''heating'' then 0 else 1)"
    using ok assms(1) by (rule loop_steps_assignments)
  from mono dom steps once show ?thesis by (intro conjI)
qed

theorem status_sequence_monotone_witness:
  "map st_status (initial_state short_hold # loop_trace short_hold [0, 60] (initial_state short_hold)) =
     [''heating'', ''reaction'', ''cooling''] \<and>
   sorted (map (\<lambda>s. status_rank (st_status s))
     (initial_state short_hold # loop_trace short_hold [0, 60] (initial_state short_hold))) \<and>
   length (filter (\<lambda>(t, a, b). st_reaction_start_time b \<noteq> st_reaction_start_time a)
             (loop_steps short_hold [0, 60] (initial_state short_hold))) = 1"
proof -
  let ?c = short_hold and ?i = "initial_state short_hold"
  have h: "st_status ?i = ''heating''" and n: "st_reaction_start_time ?i = None"
    by (simp_all add: initial_state_def)
  from loop_body_returns [OF valid_config_short_hold initial_state_ok [of ?c], of 0]
  obtain s1 where b1: "loop_body ?c 0 ?i = Inr s1" by (elim exE)
  have "update_status ?c 0 (st_T_reactor ?i) (st_status ?i, st_reaction_start_time ?i) =
          Inr (''reaction'', Some 0)"
    by (simp add: initial_state_def update_status_heating short_hold_def design_scalars)
  then have s1: "st_status s1 = ''reaction''" "st_reaction_start_time s1 = Some 0"
    unfolding loop_body_status [OF b1] by simp_all
  have ok1: "status_ok s1" using loop_body_step [OF initial_state_ok b1] by (rule conjunct1)
  from loop_body_returns [OF valid_config_short_hold ok1, of 60]
  obtain s2 where b2: "loop_body ?c 60 s1 = Inr s2" by (elim exE)
  have "update_status ?c 60 (st_T_reactor s1) (st_status s1, st_reaction_start_time s1) =
          Inr (''cooling'', Some 0)"
    unfolding s1 by (simp add: update_status_reaction short_hold_def)
  then have s2: "st_status s2 = ''cooling''"
    unfolding loop_body_status [OF b2] by simp
  have tr: "loop_trace ?c [0, 60] ?i = [s1, s2]" by (simp add: b1 b2)
  have m: "map st_status (?i # loop_trace ?c [0, 60] ?i) = [''heating'', ''reaction'', ''cooling'']"
    unfolding tr by (simp add: h s1 s2)
  have l: "st_status (last (?i # loop_trace ?c [0, 60] ?i)) \<noteq> ''heating''"
    unfolding tr by (simp add: s2)
  from status_sequence_monotone [OF h n, of ?c "[0, 60]"] m l
  show ?thesis by (elim conjE) (intro conjI, assumption, assumption, simp)
qed

subsection \<open>The heater setpoint\<close>

lemma heater_cooler_heating:
  assumes "status = ''heating'' \<or> status = ''reaction''"
    and "heater_cooler cfg status T_oil T_reactor = Inr h"
  shows "\<exists>flow Q hot_out T_oil' reason.
           thermal_mass cfg ''flow'' = Some flow \<and>
           calculate_heat_transfer cfg (T_heater_exit cfg T_oil T_reactor) T_oil flow flow
             (Some (heater_max_duty cfg)) ''heater_oil'' = Inr (Q, hot_out, T_oil', reason) \<and>
           h = (Q, 0, T_oil', reason, ''no transfer'')"
proof -
  have st: "status \<in> set [''heating'', ''reaction'']" using assms(1) by (elim disjE) simp_all
  show ?thesis
  proof (cases "thermal_mass cfg ''flow''")
    case None
    then show ?thesis using assms(2) st by (simp add: heater_cooler_def)
  next
    case (Some flow)
    show ?thesis
    proof (cases "calculate_heat_transfer cfg (T_heater_exit cfg T_oil T_reactor) T_oil flow flow
             (Some (heater_max_duty cfg)) ''heater_oil''")
      case (Inl e)
      then show ?thesis using assms(2) st Some by (simp add: heater_cooler_def)
    next
      case (Inr r)
      obtain Q hot_out T_oil' reason where r: "r = (Q, hot_out, T_oil', reason)"
        by (cases r)
      have "h = (Q, 0, T_oil', reason, ''no transfer'')"
        using assms(2) st Some Inr unfolding r by (simp add: heater_cooler_def)
      then show ?thesis using Some Inr unfolding r by (intro exI conjI)
    qed
  qed
qed

text \<open>
  Claim C6. The heater exit temperature target equals
  \<open>min oil_max_temp (T_oil + K_p * ((reactor_max_temp + 5) - T_reactor))\<close> and never
  exceeds the oil max temperature, for every oil and reactor temperature; and in every
  completed iteration whose status is heating or reaction, the heater exchange is
  computed with that target as its hot inlet and its results are the ones logged.
\<close>

theorem heater_exit_target:
  "T_heater_exit cfg T_oil T_reactor =
     min (oil_max_temp cfg) (T_oil + K_p cfg * ((reactor_max_temp cfg + 5) - T_reactor)) \<and>
   T_heater_exit cfg T_oil T_reactor \<le> oil_max_temp cfg \<and>
   (loop_body cfg t s = Inr s' \<and> (st_status s' = ''heating'' \<or> st_status s' = ''reaction'') \<longrightarrow>
      (\<exists>flow Q hot_out T_oil' reason.
         thermal_mass cfg ''flow'' = Some flow \<and>
         calculate_heat_transfer cfg
           (min (oil_max_temp cfg)
              (st_T_oil s + K_p cfg * ((reactor_max_temp cfg + 5) - st_T_reactor s)))
           (st_T_oil s) flow flow (Some (heater_max_duty cfg)) ''heater_oil'' =
             Inr (Q, hot_out, T_oil', reason) \<and>
         r_Q_heater (st_results s') = r_Q_heater (st_results s) @ [Q] \<and>
         r_T_oil_out_heater (st_results s') = r_T_oil_out_heater (st_results s) @ [T_oil'] \<and>
         r_limit_heater (st_results s') = r_limit_heater (st_results s) @ [reason]))"
proof (intro conjI impI)
  show eq: "T_heater_exit cfg T_oil T_reactor =
     min (oil_max_temp cfg) (T_oil + K_p cfg * ((reactor_max_temp cfg + 5) - T_reactor))"
    for T_oil T_reactor
    by (simp add: T_heater_exit_def py_min_def min_def)
  show "T_heater_exit cfg T_oil T_reactor \<le> oil_max_temp cfg"
    unfolding eq by (rule min.cobounded1)
  assume a: "loop_body cfg t s = Inr s' \<and> (st_status s' = ''heating'' \<or> st_status s' = ''reaction'')"
  then have b: "loop_body cfg t s = Inr s'"
    and st: "st_status s' = ''heating'' \<or> st_status s' = ''reaction''"
    by (rule conjunct1, rule conjunct2)
  from b obtain p h r where
    "update_status cfg t (st_T_reactor s) (st_status s, st_reaction_start_time s) = Inr p"
    and hc: "heater_cooler cfg (fst p) (st_T_oil s) (st_T_reactor s) = Inr h"
    and "oil_circuit cfg (fst (snd (snd h))) (st_T_jacket s) (st_T_reactor s) = Inr r"
    and sp: "st_status s' = fst p" and "st_reaction_start_time s' = snd p"
    and ex: "\<exists>a1 a2 a3 a4 a5 a6 a7 a8 a9 a10 a11 a12 a13 a14.
       st_results s' =
         log_results (st_results s) t (fst (snd (snd h))) a1 a2 a3 a4 a5
           (fst h) (fst (snd h)) a6 a7 a8 a9 a10 a11
           (fst (snd (snd (snd h)))) (snd (snd (snd (snd h)))) a12 a13 a14"
    by (rule loop_body_InrE)
  from ex obtain a1 a2 a3 a4 a5 a6 a7 a8 a9 a10 a11 a12 a13 a14 where
    res: "st_results s' =
         log_results (st_results s) t (fst (snd (snd h))) a1 a2 a3 a4 a5
           (fst h) (fst (snd h)) a6 a7 a8 a9 a10 a11
           (fst (snd (snd (snd h)))) (snd (snd (snd (snd h)))) a12 a13 a14"
    by (elim exE)
  have st': "fst p = ''heating'' \<or> fst p = ''reaction''" using st unfolding sp .
  from heater_cooler_heating [OF st' hc]
  obtain flow Q hot_out T_oil' reason where
    f: "thermal_mass cfg ''flow'' = Some flow"
    and c: "calculate_heat_transfer cfg (T_heater_exit cfg (st_T_oil s) (st_T_reactor s))
             (st_T_oil s) flow flow (Some (heater_max_duty cfg)) ''heater_oil'' =
             Inr (Q, hot_out, T_oil', reason)"
    and h: "h = (Q, 0, T_oil', reason, ''no transfer'')"
    by (elim exE conjE)
  have "r_Q_heater (st_results s') = r_Q_heater (st_results s) @ [Q]"
    and "r_T_oil_out_heater (st_results s') = r_T_oil_out_heater (st_results s) @ [T_oil']"
    and "r_limit_heater (st_results s') = r_limit_heater (st_results s) @ [reason]"
    unfolding res heater_columns_log_results h by simp_all
  with f c [unfolded eq]
  show "\<exists>flow Q hot_out T_oil' reason.
         thermal_mass cfg ''flow'' = Some flow \<and>
         calculate_heat_transfer cfg
           (min (oil_max_temp cfg)
              (st_T_oil s + K_p cfg * ((reactor_max_temp cfg + 5) - st_T_reactor s)))
           (st_T_oil s) flow flow (Some (heater_max_duty cfg)) ''heater_oil'' =
             Inr (Q, hot_out, T_oil', reason) \<and>
         r_Q_heater (st_results s') = r_Q_heater (st_results s) @ [Q] \<and>
         r_T_oil_out_heater (st_results s') = r_T_oil_out_heater (st_results s) @ [T_oil'] \<and>
         r_limit_heater (st_results s') = r_limit_heater (st_results s) @ [reason]"
    by (intro exI conjI)
qed


theorem heater_exit_target_witness:
  "T_heater_exit design 25 25 = 200 \<and>
   (\<exists>s' flow Q hot_out T_oil' reason.
      loop_body design 0 (initial_state design) = Inr s' \<and>
      st_status s' = ''heating'' \<and>
      thermal_mass design ''flow'' = Some flow \<and>
      calculate_heat_transfer design
        (min (oil_max_temp design)
           (st_T_oil (initial_state design) +
            K_p design * ((reactor_max_temp design + 5) - st_T_reactor (initial_state design))))
        (st_T_oil (initial_state design)) flow flow (Some (heater_max_duty design))
        ''heater_oil'' = Inr (Q, hot_out, T_oil', reason) \<and>
      r_Q_heater (st_results s') = r_Q_heater (st_results (initial_state design)) @ [Q])"
proof -
  from loop_body_returns [OF valid_config_design initial_state_ok [of design], of 0]
  obtain s' where b: "loop_body design 0 (initial_state design) = Inr s'" by (elim exE)
  have "update_status design 0 (st_T_reactor (initial_state design))
          (st_status (initial_state design), st_reaction_start_time (initial_state design)) =
        Inr (''heating'', None)"
    by (simp add: initial_state_def update_status_heating design_scalars)
  then have st: "st_status s' = ''heating''"
    unfolding loop_body_status [OF b] by simp
  note th = heater_exit_target [of design 25 25 0 "initial_state design" s']
  have t: "T_heater_exit design 25 25 = 200"
    using th by (simp add: design_scalars)
  from th b st obtain flow Q hot_out T_oil' reason where
    "thermal_mass design ''flow'' = Some flow"
    "calculate_heat_transfer design
        (min (oil_max_temp design)
           (st_T_oil (initial_state design) +
            K_p design * ((reactor_max_temp design + 5) - st_T_reactor (initial_state design))))
        (st_T_oil (initial_state design)) flow flow (Some (heater_max_duty design))
        ''heater_oil'' = Inr (Q, hot_out, T_oil', reason)"
    "r_Q_heater (st_results s') = r_Q_heater (st_results (initial_state design)) @ [Q]"
    by (elim conjE impE) (intro conjI disjI1, assumption+, elim exE conjE)
  with t b st show ?thesis by (intro conjI exI)
qed

end
